theory Spec2Isabelle
  imports
    Complex_Main
    "HOL-Library.Char_ord"
    "HOL-Library.List_Lexorder"
    "HOL-Library.Sublist"
    "HOL-Library.Multiset"
    "HOL-Library.Log_Nat"
begin

section \<open>Numbers\<close>

text \<open>
  A JavaScript number is an IEEE 754 double: a finite value, one of the two
  infinities, or \<open>NaN\<close>. A finite double is held as the rational it is; every
  arithmetic operation rounds its exact result to the nearest double, ties to the even
  significand, and overflows to an infinity. The two zeros are one value here: the
  program never divides by a computed zero, and the texts it prints for them are the
  same.
\<close>

datatype number = Finite rat | PosInf | NegInf | NaN

definition pow2 :: "int \<Rightarrow> rat" where
  "pow2 k = (if 0 \<le> k then 2 ^ nat k else 1 / 2 ^ nat (- k))"

text \<open>The binary exponent of a positive rational: \<open>2 ^ e \<le> x < 2 ^ (e + 1)\<close>.\<close>

definition exponent :: "rat \<Rightarrow> int" where
  "exponent x =
     (let (p, q) = quotient_of x; k = bitlen p - bitlen q
      in if pow2 k \<le> x then k else k - 1)"

definition roundEven :: "rat \<Rightarrow> int" where
  "roundEven y =
     (let f = \<lfloor>y\<rfloor>; d = y - of_int f
      in if d < 1 / 2 then f else if 1 / 2 < d then f + 1 else if even f then f else f + 1)"

text \<open>
  Rounding to binary64: 53 significant bits, the least exponent \<open>-1022\<close> (below it the
  spacing of the subnormal numbers stays \<open>2 ^ -1074\<close>), and anything that rounds to
  \<open>2 ^ 1024\<close> or more is infinite.
\<close>

definition fl :: "rat \<Rightarrow> number" where
  "fl x =
     (if x = 0 then Finite 0
      else
        let a = \<bar>x\<bar>;
            e = max (exponent a) (- 1022);
            ulp = pow2 (e - 52);
            r = of_int (roundEven (a / ulp)) * ulp
        in if pow2 1024 \<le> r then (if 0 < x then PosInf else NegInf)
           else Finite (if 0 < x then r else - r))"

text \<open>The sign of a number, as a comparator's caller reads it: \<open>NaN\<close> counts as zero.\<close>

fun signN :: "number \<Rightarrow> int" where
  "signN (Finite x) = (if x < 0 then - 1 else if x = 0 then 0 else 1)"
| "signN PosInf = 1"
| "signN NegInf = - 1"
| "signN NaN = 0"

fun negN :: "number \<Rightarrow> number" where
  "negN (Finite x) = Finite (- x)"
| "negN PosInf = NegInf"
| "negN NegInf = PosInf"
| "negN NaN = NaN"

fun addN :: "number \<Rightarrow> number \<Rightarrow> number" where
  "addN (Finite x) (Finite y) = fl (x + y)"
| "addN NaN b = NaN"
| "addN a NaN = NaN"
| "addN PosInf NegInf = NaN"
| "addN NegInf PosInf = NaN"
| "addN PosInf b = PosInf"
| "addN a PosInf = PosInf"
| "addN NegInf b = NegInf"
| "addN a NegInf = NegInf"

definition subN :: "number \<Rightarrow> number \<Rightarrow> number" where
  "subN a b = addN a (negN b)"

definition mulN :: "number \<Rightarrow> number \<Rightarrow> number" where
  "mulN a b =
     (case (a, b) of
        (Finite x, Finite y) \<Rightarrow> fl (x * y)
      | _ \<Rightarrow> (if a = NaN \<or> b = NaN \<or> a = Finite 0 \<or> b = Finite 0 then NaN
              else if signN a * signN b < 0 then NegInf else PosInf))"

definition divN :: "number \<Rightarrow> number \<Rightarrow> number" where
  "divN a b =
     (case (a, b) of
        (Finite x, Finite y) \<Rightarrow>
          (if y \<noteq> 0 then fl (x / y)
           else if x = 0 then NaN else if 0 < x then PosInf else NegInf)
      | (Finite x, _) \<Rightarrow> (if b = NaN then NaN else Finite 0)
      | (_, Finite y) \<Rightarrow>
          (if a = NaN then NaN
           else if signN a * (if y < 0 then - 1 else 1) < 0 then NegInf else PosInf)
      | _ \<Rightarrow> NaN)"

text \<open>\<open>Math.round\<close>: the nearest whole number, a half going upwards.\<close>

fun mathRound :: "number \<Rightarrow> number" where
  "mathRound (Finite x) = Finite (of_int \<lfloor>x + 1 / 2\<rfloor>)"
| "mathRound a = a"

text \<open>The order of the numbers; nothing is below or above \<open>NaN\<close>.\<close>

fun lessN :: "number \<Rightarrow> number \<Rightarrow> bool" where
  "lessN (Finite x) (Finite y) = (x < y)"
| "lessN NaN b = False"
| "lessN a NaN = False"
| "lessN a NegInf = False"
| "lessN PosInf b = False"
| "lessN NegInf b = True"
| "lessN a PosInf = True"

text \<open>\<open>Math.min\<close> and \<open>Math.max\<close> of two numbers.\<close>

definition minN :: "number \<Rightarrow> number \<Rightarrow> number" where
  "minN a b = (if a = NaN \<or> b = NaN then NaN else if lessN b a then b else a)"

definition maxN :: "number \<Rightarrow> number \<Rightarrow> number" where
  "maxN a b = (if a = NaN \<or> b = NaN then NaN else if lessN a b then b else a)"

section \<open>Values\<close>

text \<open>
  A record of a dataset is a JavaScript object read from JSON whose fields hold scalars
  (the datasets' schema knows the type tags \<open>number\<close> and \<open>string\<close>). Reading a name
  that is not a field of the record gives \<open>undefined\<close>, unless it is one of the names
  every object inherits: then it gives the inherited member, a function or, for
  \<open>__proto__\<close>, the prototype object. Strings are sequences of code units, compared
  unit by unit.
\<close>

datatype scalar = JUndefined | JNull | JBool bool | JNum number | JStr string | JMember string

text \<open>
  Values that arrive in a request body are arbitrary JSON: scalars, arrays and objects
  (an object as the list of its own properties).
\<close>

datatype jsval = Prim scalar | Arr "jsval list" | Obj "(string \<times> jsval) list"

datatype error = TypeError string | SyntaxError string

type_synonym row = "(string \<times> scalar) list"

text \<open>
  An entry of an aggregation's result; its \<open>value\<close> is the \<open>amount\<close> here.
\<close>

record AggregateEntry =
  group :: string
  amount :: number

text \<open>
  What the program calls and the repository does not hold belongs to the JavaScript
  engine: number formatting, the numeric reading of a string, case folding,
  locale-aware comparison, and \<open>Array.prototype.sort\<close> with a comparator, on an array of
  records and on an array of result entries. The sort sees the comparator's result
  through its sign.
\<close>

record host =
  numToString :: "number \<Rightarrow> string"
  stringToNumber :: "string \<Rightarrow> number"
  toLowerCase :: "string \<Rightarrow> string"
  localeCompare :: "string \<Rightarrow> string \<Rightarrow> int"
  sortRows :: "(row \<Rightarrow> row \<Rightarrow> int) \<Rightarrow> row list \<Rightarrow> row list"
  sortEntries ::
    "(AggregateEntry \<Rightarrow> AggregateEntry \<Rightarrow> int) \<Rightarrow> AggregateEntry list \<Rightarrow> AggregateEntry list"

text \<open>
  Reading a property of \<open>null\<close> or \<open>undefined\<close> throws a \<open>TypeError\<close>.
\<close>

definition nullish :: "jsval \<Rightarrow> bool" where
  "nullish v = (v = Prim JUndefined \<or> v = Prim JNull)"

definition cannotRead :: "bool \<Rightarrow> string \<Rightarrow> error" where
  "cannotRead isNull p =
     TypeError (''Cannot read properties of '' @
       (if isNull then ''null'' else ''undefined'') @
       '' (reading '' @ [CHR 0x27] @ p @ [CHR 0x27] @ '')'')"

subsection \<open>Coercions\<close>

text \<open>The members of \<open>Object.prototype\<close>, and the text of one.\<close>

definition inheritedNames :: "string list" where
  "inheritedNames =
     [''constructor'', ''toString'', ''toLocaleString'', ''valueOf'', ''hasOwnProperty'',
      ''isPrototypeOf'', ''propertyIsEnumerable'', ''__proto__'', ''__defineGetter__'',
      ''__defineSetter__'', ''__lookupGetter__'', ''__lookupSetter__'']"

definition memberString :: "string \<Rightarrow> string" where
  "memberString n =
     (if n = ''__proto__'' then ''[object Object]''
      else ''function '' @ (if n = ''constructor'' then ''Object'' else n) @
           ''() { [native code] }'')"

text \<open>\<open>String(v)\<close> for a scalar.\<close>

fun ToString :: "host \<Rightarrow> scalar \<Rightarrow> string" where
  "ToString H JUndefined = ''undefined''"
| "ToString H JNull = ''null''"
| "ToString H (JBool b) = (if b then ''true'' else ''false'')"
| "ToString H (JNum n) = numToString H n"
| "ToString H (JStr s) = s"
| "ToString H (JMember n) = memberString n"

text \<open>\<open>Number(v)\<close> for a scalar.\<close>

fun ToNumber :: "host \<Rightarrow> scalar \<Rightarrow> number" where
  "ToNumber H JUndefined = NaN"
| "ToNumber H JNull = Finite 0"
| "ToNumber H (JBool b) = Finite (if b then 1 else 0)"
| "ToNumber H (JNum n) = n"
| "ToNumber H (JStr s) = stringToNumber H s"
| "ToNumber H (JMember n) = stringToNumber H (memberString n)"

text \<open>Truthiness of a scalar.\<close>

fun truthy :: "scalar \<Rightarrow> bool" where
  "truthy JUndefined = False"
| "truthy JNull = False"
| "truthy (JBool b) = b"
| "truthy (JNum n) = (n \<noteq> Finite 0 \<and> n \<noteq> NaN)"
| "truthy (JStr s) = (s \<noteq> [])"
| "truthy (JMember n) = True"

text \<open>
  Strict equality \<open>===\<close> of two scalars: the same value, except that \<open>NaN\<close> equals
  nothing. An inherited member is the same object in every record.
\<close>

definition strictEquals :: "scalar \<Rightarrow> scalar \<Rightarrow> bool" where
  "strictEquals a b = (a = b \<and> a \<noteq> JNum NaN)"

fun joinWith :: "string \<Rightarrow> string list \<Rightarrow> string" where
  "joinWith sep [] = []"
| "joinWith sep [s] = s"
| "joinWith sep (s # t # ss) = s @ sep @ joinWith sep (t # ss)"

text \<open>
  \<open>String(v)\<close> for any JSON value. An array is joined with commas, \<open>null\<close> and
  \<open>undefined\<close> elements giving the empty string. An object parsed from JSON inherits
  \<open>toString\<close> and gives \<open>[object Object]\<close>, unless it has an own property named
  \<open>toString\<close>: that property is never callable, \<open>valueOf\<close> returns the object itself,
  and the conversion throws a \<open>TypeError\<close>. The conversion to a property key is the
  same.
\<close>

fun ToStringV :: "host \<Rightarrow> jsval \<Rightarrow> error + string"
  and elemStrings :: "host \<Rightarrow> jsval list \<Rightarrow> error + string list" where
  "ToStringV H (Prim s) = Inr (ToString H s)"
| "ToStringV H (Arr xs) =
     (case elemStrings H xs of Inl e \<Rightarrow> Inl e | Inr ss \<Rightarrow> Inr (joinWith '','' ss))"
| "ToStringV H (Obj kvs) =
     (if ''toString'' \<in> set (map fst kvs)
      then Inl (TypeError ''Cannot convert object to primitive value'')
      else Inr ''[object Object]'')"
| "elemStrings H [] = Inr []"
| "elemStrings H (x # xs) =
     (case (if x = Prim JUndefined \<or> x = Prim JNull then Inr [] else ToStringV H x) of
        Inl e \<Rightarrow> Inl e
      | Inr s \<Rightarrow> (case elemStrings H xs of Inl e \<Rightarrow> Inl e | Inr ss \<Rightarrow> Inr (s # ss)))"

text \<open>
  \<open>ToPrimitive\<close>, as the relational operators apply it to an operand: a scalar is
  itself, an inherited member, an array or an object becomes its string (for these
  values the number hint ends in the same \<open>toString\<close>).
\<close>

definition primitiveOf :: "scalar \<Rightarrow> scalar" where
  "primitiveOf v = (case v of JMember n \<Rightarrow> JStr (memberString n) | _ \<Rightarrow> v)"

definition ToPrimitive :: "host \<Rightarrow> jsval \<Rightarrow> error + scalar" where
  "ToPrimitive H v =
     (case v of
        Prim s \<Rightarrow> Inr (primitiveOf s)
      | _ \<Rightarrow> (case ToStringV H v of Inl e \<Rightarrow> Inl e | Inr s \<Rightarrow> Inr (JStr s)))"

text \<open>
  The abstract relational comparison \<open>x < y\<close> of two primitives: two strings compare
  by code units, anything else numerically; \<open>None\<close> is the undefined outcome when an
  operand is \<open>NaN\<close>.
\<close>

definition IsLessThan :: "host \<Rightarrow> scalar \<Rightarrow> scalar \<Rightarrow> bool option" where
  "IsLessThan H x y =
     (case (x, y) of
        (JStr a, JStr b) \<Rightarrow> Some (a < b)
      | _ \<Rightarrow> (if ToNumber H x = NaN \<or> ToNumber H y = NaN then None
              else Some (lessN (ToNumber H x) (ToNumber H y))))"

text \<open>\<open>s.includes(t)\<close> on strings: \<open>t\<close> occurs in \<open>s\<close> as a contiguous run.\<close>

fun includesStr :: "string \<Rightarrow> string \<Rightarrow> bool" where
  "includesStr [] t = (t = [])"
| "includesStr (c # cs) t = (prefix t (c # cs) \<or> includesStr cs t)"

section \<open>Records and filters\<close>

text \<open>\<open>row[key]\<close>: the field, else the inherited member, else \<open>undefined\<close>.\<close>

definition getField :: "row \<Rightarrow> string \<Rightarrow> scalar" where
  "getField r f =
     (case map_of r f of
        Some v \<Rightarrow> v
      | None \<Rightarrow> (if f \<in> set inheritedNames then JMember f else JUndefined))"

text \<open>
  \<open>v.k\<close> for a JSON value that is neither \<open>null\<close> nor \<open>undefined\<close> and a property name
  no JSON value inherits: the own property of an object, \<open>undefined\<close> otherwise.
\<close>

definition getProp :: "jsval \<Rightarrow> string \<Rightarrow> jsval" where
  "getProp v k =
     (case v of
        Obj kvs \<Rightarrow> (case map_of kvs k of None \<Rightarrow> Prim JUndefined | Some x \<Rightarrow> x)
      | _ \<Rightarrow> Prim JUndefined)"

text \<open>
  One filter on one row: the body of the callback of \<open>every\<close> in \<open>applyFilters\<close>. The
  entries of the filter list come from the request body and are any JSON values: the
  type \<open>Filter\<close> is not checked. Reading \<open>filter.field\<close> throws when the entry is
  \<open>null\<close>; \<open>row[filter.field]\<close> converts the field to a property key, which throws
  for an object that has no string conversion. Strict equality of the row's value with
  an array or an object is false (they are different objects). \<open>in\<close> calls
  \<open>includes\<close> on the filter's value: an array tests membership, a string tests for a
  substring, and every other value has no such method (or, being \<open>null\<close> or
  \<open>undefined\<close>, no property at all), which throws.
\<close>

definition strictEq :: "scalar \<Rightarrow> jsval \<Rightarrow> bool" where
  "strictEq v w = (case w of Prim s \<Rightarrow> strictEquals v s | _ \<Rightarrow> False)"

definition filterTest :: "host \<Rightarrow> row \<Rightarrow> jsval \<Rightarrow> error + bool" where
  "filterTest H r f =
     (if nullish f then Inl (cannotRead (f = Prim JNull) ''field'')
      else
        case ToStringV H (getProp f ''field'') of
          Inl e \<Rightarrow> Inl e
        | Inr key \<Rightarrow>
           (let v = getField r key; operator = getProp f ''operator''; w = getProp f ''value'' in
            if operator = Prim (JStr ''eq'') then Inr (strictEq v w)
            else if operator = Prim (JStr ''ne'') then Inr (\<not> strictEq v w)
            else if operator = Prim (JStr ''gt'') then
              (case ToPrimitive H w of Inl e \<Rightarrow> Inl e
               | Inr p \<Rightarrow> Inr (IsLessThan H p (primitiveOf v) = Some True))
            else if operator = Prim (JStr ''gte'') then
              (case ToPrimitive H w of Inl e \<Rightarrow> Inl e
               | Inr p \<Rightarrow> Inr (IsLessThan H (primitiveOf v) p = Some False))
            else if operator = Prim (JStr ''lt'') then
              (case ToPrimitive H w of Inl e \<Rightarrow> Inl e
               | Inr p \<Rightarrow> Inr (IsLessThan H (primitiveOf v) p = Some True))
            else if operator = Prim (JStr ''lte'') then
              (case ToPrimitive H w of Inl e \<Rightarrow> Inl e
               | Inr p \<Rightarrow> Inr (IsLessThan H p (primitiveOf v) = Some False))
            else if operator = Prim (JStr ''contains'') then
              (case ToStringV H w of Inl e \<Rightarrow> Inl e
               | Inr s \<Rightarrow> Inr (includesStr (toLowerCase H (ToString H v)) (toLowerCase H s)))
            else if operator = Prim (JStr ''in'') then
              (case w of
                 Arr xs \<Rightarrow> Inr (Prim v \<in> set xs)
               | Prim (JStr s) \<Rightarrow> Inr (includesStr s (ToString H v))
               | _ \<Rightarrow> Inl (if nullish w then cannotRead (w = Prim JNull) ''includes''
                           else TypeError ''filter.value.includes is not a function''))
            else Inr True))"

text \<open>\<open>filters.every(...)\<close>: left to right, stopping at the first false or throw.\<close>

fun every :: "host \<Rightarrow> row \<Rightarrow> jsval list \<Rightarrow> error + bool" where
  "every H r [] = Inr True"
| "every H r (f # fs) =
     (case filterTest H r f of
        Inl e \<Rightarrow> Inl e
      | Inr b \<Rightarrow> (if b then every H r fs else Inr False))"

text \<open>\<open>data.filter(...)\<close>: a new array of the rows that pass; a throw ends the call.\<close>

fun applyFilters :: "host \<Rightarrow> row list \<Rightarrow> jsval list \<Rightarrow> error + row list" where
  "applyFilters H [] filters = Inr []"
| "applyFilters H (r # rs) filters =
     (case every H r filters of
        Inl e \<Rightarrow> Inl e
      | Inr b \<Rightarrow> (case applyFilters H rs filters of
                   Inl e \<Rightarrow> Inl e
                 | Inr out \<Rightarrow> Inr (if b then r # out else out)))"

text \<open>
  When a filter cannot throw: it is not \<open>null\<close> or \<open>undefined\<close>, its field has a string
  conversion, a comparison or \<open>contains\<close> has a value whose string conversion exists,
  and \<open>in\<close> has an array or a string.
\<close>

fun plain :: "jsval \<Rightarrow> bool" where
  "plain (Prim s) = True"
| "plain (Arr xs) = (\<forall>x\<in>set xs. plain x)"
| "plain (Obj kvs) = (''toString'' \<notin> set (map fst kvs))"

definition wellFormed :: "jsval \<Rightarrow> bool" where
  "wellFormed f =
     (\<not> nullish f \<and> plain (getProp f ''field'') \<and>
      (if getProp f ''operator'' \<in>
           {Prim (JStr ''gt''), Prim (JStr ''gte''), Prim (JStr ''lt''), Prim (JStr ''lte''),
            Prim (JStr ''contains'')}
       then plain (getProp f ''value'')
       else if getProp f ''operator'' = Prim (JStr ''in'') then
         (case getProp f ''value'' of Arr xs \<Rightarrow> True | Prim (JStr s) \<Rightarrow> True | _ \<Rightarrow> False)
       else True))"

section \<open>Sorting\<close>

record SortSpec =
  sort_field :: string
  direction :: string

text \<open>
  The comparator of \<open>sortData\<close>. Two values that are not both strings are compared
  with \<open><\<close>, which is false whenever an operand has no number; the comparator then
  answers 1 in both orders.
\<close>

definition compareRows :: "host \<Rightarrow> SortSpec \<Rightarrow> row \<Rightarrow> row \<Rightarrow> int" where
  "compareRows H spec a b =
     (let aVal = getField a (sort_field spec); bVal = getField b (sort_field spec) in
      if strictEquals aVal bVal then 0
      else
        let comparison =
          (case (aVal, bVal) of
             (JStr s, JStr t) \<Rightarrow> localeCompare H s t
           | _ \<Rightarrow> (if IsLessThan H (primitiveOf aVal) (primitiveOf bVal) = Some True
                   then - 1 else 1))
        in if direction spec = ''asc'' then comparison else - comparison)"

text \<open>\<open>sortData\<close>: the contents of the sorted copy.\<close>

definition sortData :: "host \<Rightarrow> row list \<Rightarrow> SortSpec \<Rightarrow> row list" where
  "sortData H data spec = sortRows H (compareRows H spec) data"

subsection \<open>What the language asks of a sort\<close>

text \<open>
  A comparator is consistent on a set of elements when exchanging the arguments
  exchanges the sign and being at most equal is transitive. For such a comparator the
  language prescribes the result: ordered by the comparator, elements that compare
  equal in the order they had. For any other comparator the order is left to the
  engine.
\<close>

definition consistentOn :: "('a \<Rightarrow> 'a \<Rightarrow> int) \<Rightarrow> 'a set \<Rightarrow> bool" where
  "consistentOn cmp A =
     ((\<forall>x\<in>A. \<forall>y\<in>A. (cmp x y < 0) = (0 < cmp y x)) \<and>
      (\<forall>x\<in>A. \<forall>y\<in>A. \<forall>z\<in>A. cmp x y \<le> 0 \<and> cmp y z \<le> 0 \<longrightarrow> cmp x z \<le> 0))"


definition conforming :: "(('a \<Rightarrow> 'a \<Rightarrow> int) \<Rightarrow> 'a list \<Rightarrow> 'a list) \<Rightarrow> bool" where
  "conforming srt =
     (\<forall>cmp xs. consistentOn cmp (set xs) \<longrightarrow>
        mset (srt cmp xs) = mset xs \<and>
        sorted_wrt (\<lambda>a b. cmp a b \<le> 0) (srt cmp xs) \<and>
        (\<forall>x. filter (\<lambda>y. cmp x y = 0) (srt cmp xs) = filter (\<lambda>y. cmp x y = 0) xs))"

text \<open>
  The stable insertion sort puts an element before the first later one it does not
  compare greater than. It computes the prescribed result.
\<close>

fun insertBy :: "('a \<Rightarrow> 'a \<Rightarrow> int) \<Rightarrow> 'a \<Rightarrow> 'a list \<Rightarrow> 'a list" where
  "insertBy cmp x [] = [x]"
| "insertBy cmp x (y # ys) = (if cmp x y \<le> 0 then x # y # ys else y # insertBy cmp x ys)"

definition stableSort :: "('a \<Rightarrow> 'a \<Rightarrow> int) \<Rightarrow> 'a list \<Rightarrow> 'a list" where
  "stableSort cmp xs = foldr (insertBy cmp) xs []"

text \<open>
  The sort of the V8 engine, as it runs on an array of fewer than 64 elements (on a
  longer one it also merges runs, which is not part of this definition). It takes the
  longest run at the start of the array, ascending or strictly descending by the
  comparator on neighbours, reverses a descending run, and inserts each later element
  into the sorted part at the place a binary search finds.
\<close>

fun runRest :: "('a \<Rightarrow> 'a \<Rightarrow> int) \<Rightarrow> bool \<Rightarrow> 'a \<Rightarrow> 'a list \<Rightarrow> nat" where
  "runRest cmp descending previous [] = 0"
| "runRest cmp descending previous (x # xs) =
     (if (if descending then cmp x previous < 0 else 0 \<le> cmp x previous)
      then Suc (runRest cmp descending x xs) else 0)"

function binarySearch :: "('a \<Rightarrow> 'a \<Rightarrow> int) \<Rightarrow> 'a \<Rightarrow> 'a list \<Rightarrow> nat \<Rightarrow> nat \<Rightarrow> nat" where
  "binarySearch cmp pivot ws left right =
     (if left < right then
        (if cmp pivot (ws ! (left + (right - left) div 2)) < 0
         then binarySearch cmp pivot ws left (left + (right - left) div 2)
         else binarySearch cmp pivot ws (Suc (left + (right - left) div 2)) right)
      else left)"
  by pat_completeness auto
termination
  by (relation "measure (\<lambda>(cmp, pivot, ws, left, right). right - left)") auto

definition insertPivot :: "('a \<Rightarrow> 'a \<Rightarrow> int) \<Rightarrow> 'a list \<Rightarrow> 'a \<Rightarrow> 'a list" where
  "insertPivot cmp ws pivot =
     (let left = binarySearch cmp pivot ws 0 (length ws) in take left ws @ pivot # drop left ws)"

definition v8Sort :: "('a \<Rightarrow> 'a \<Rightarrow> int) \<Rightarrow> 'a list \<Rightarrow> 'a list" where
  "v8Sort cmp xs =
     (case xs of
        a # b # rest \<Rightarrow>
          (let descending = cmp b a < 0;
               runLength = 2 + runRest cmp descending b rest;
               run = take runLength xs
           in foldl (insertPivot cmp) (if descending then rev run else run) (drop runLength xs))
      | _ \<Rightarrow> xs)"

section \<open>Aggregation\<close>

text \<open>
  The \<open>Map\<close> from group key to the metric values of the group keeps its keys in the
  order of their first insertion: an association list, a new key going to the end. The
  values of a key are its first value and the ones pushed after it.
\<close>

type_synonym groups = "(string \<times> number \<times> number list) list"

fun pushGroup :: "string \<Rightarrow> number \<Rightarrow> groups \<Rightarrow> groups" where
  "pushGroup k v [] = [(k, v, [])]"
| "pushGroup k v ((k', w, ws) # gs) =
     (if k = k' then (k', w, ws @ [v]) # gs else (k', w, ws) # pushGroup k v gs)"

text \<open>\<open>Number(row[metric]) || 0\<close>: \<open>NaN\<close> and zero both give zero.\<close>

definition metricValue :: "host \<Rightarrow> row \<Rightarrow> string \<Rightarrow> number" where
  "metricValue H r metric =
     (let n = ToNumber H (getField r metric) in if n = NaN \<or> n = Finite 0 then Finite 0 else n)"

definition groupKey :: "host \<Rightarrow> row \<Rightarrow> string \<Rightarrow> string" where
  "groupKey H r groupBy = ToString H (getField r groupBy)"

definition collectGroups :: "host \<Rightarrow> row list \<Rightarrow> string \<Rightarrow> string \<Rightarrow> groups" where
  "collectGroups H data groupBy metric =
     foldl (\<lambda>groups r. pushGroup (groupKey H r groupBy) (metricValue H r metric) groups) [] data"

text \<open>
  The value of one group: the \<open>switch\<close> on the operation. The values of a group are
  never empty (a key enters the map together with its first value). The sum adds from
  zero, left to right; \<open>Math.min\<close> and \<open>Math.max\<close> of no number are the infinities.
\<close>

definition aggregateValue :: "string \<Rightarrow> number \<Rightarrow> number list \<Rightarrow> number" where
  "aggregateValue operation v vs =
     (if operation = ''sum'' then foldl addN (Finite 0) (v # vs)
      else if operation = ''avg'' then
        divN (foldl addN (Finite 0) (v # vs)) (Finite (of_nat (length (v # vs))))
      else if operation = ''count'' then Finite (of_nat (length (v # vs)))
      else if operation = ''min'' then foldl minN PosInf (v # vs)
      else if operation = ''max'' then foldl maxN NegInf (v # vs)
      else Finite 0)"

text \<open>\<open>Math.round(value * 100) / 100\<close>.\<close>

definition roundCents :: "number \<Rightarrow> number" where
  "roundCents x = divN (mathRound (mulN x (Finite 100))) (Finite 100)"

text \<open>The comparator of the final sort, \<open>b.value - a.value\<close>, as the sort reads it.\<close>

definition compareEntries :: "AggregateEntry \<Rightarrow> AggregateEntry \<Rightarrow> int" where
  "compareEntries a b = signN (subN (amount b) (amount a))"

definition aggregateData ::
  "host \<Rightarrow> row list \<Rightarrow> string \<Rightarrow> string \<Rightarrow> string \<Rightarrow> AggregateEntry list" where
  "aggregateData H data groupBy metric operation =
     (let groups = collectGroups H data groupBy metric;
          results =
            map (\<lambda>(g, v, vs). \<lparr>group = g, amount = roundCents (aggregateValue operation v vs)\<rparr>)
              groups
      in sortEntries H compareEntries results)"

section \<open>Pagination\<close>

text \<open>
  \<open>Array.prototype.slice\<close>: a bound is truncated towards zero (\<open>NaN\<close> is zero), a
  negative bound counts from the end of the array, and both are clamped to the array.
\<close>

definition ToIntegerOrInfinity :: "rat \<Rightarrow> int" where
  "ToIntegerOrInfinity x = (if x < 0 then \<lceil>x\<rceil> else \<lfloor>x\<rfloor>)"

definition relativeIndex :: "nat \<Rightarrow> number \<Rightarrow> nat" where
  "relativeIndex len n =
     (case n of
        Finite x \<Rightarrow>
          (let i = ToIntegerOrInfinity x
           in if i < 0 then nat (max (int len + i) 0) else nat (min i (int len)))
      | PosInf \<Rightarrow> len
      | NegInf \<Rightarrow> 0
      | NaN \<Rightarrow> 0)"

definition slice :: "'a list \<Rightarrow> number \<Rightarrow> number \<Rightarrow> 'a list" where
  "slice xs start fin =
     (let len = length xs;
          k = relativeIndex len start;
          final = relativeIndex len fin
      in take (final - k) (drop k xs))"

section \<open>Field statistics\<close>

datatype stats = NumberStats number number number | StringStats nat "scalar list" | NoStats

text \<open>A \<open>Set\<close> keeps each value once, in the order of its first insertion.\<close>

definition setAdd :: "'a list \<Rightarrow> 'a \<Rightarrow> 'a list" where
  "setAdd seen v = (if v \<in> set seen then seen else seen @ [v])"

text \<open>
  The comparator of \<open>sort()\<close> without an argument: \<open>undefined\<close> goes last, everything
  else compares by its string. It is consistent on all values, so the result is the
  one the language prescribes.
\<close>

definition defaultCompare :: "host \<Rightarrow> scalar \<Rightarrow> scalar \<Rightarrow> int" where
  "defaultCompare H x y =
     (if x = JUndefined \<and> y = JUndefined then 0
      else if x = JUndefined then 1
      else if y = JUndefined then - 1
      else if ToString H x < ToString H y then - 1
      else if ToString H y < ToString H x then 1
      else 0)"

definition getUniqueValues :: "host \<Rightarrow> row list \<Rightarrow> string \<Rightarrow> scalar list" where
  "getUniqueValues H data f =
     stableSort (defaultCompare H) (foldl setAdd [] (map (\<lambda>r. getField r f) data))"

definition getFieldStats :: "host \<Rightarrow> row list \<Rightarrow> string \<Rightarrow> string \<Rightarrow> stats" where
  "getFieldStats H data f type =
     (if type = ''number'' then
        (let values = filter (\<lambda>v. v \<noteq> NaN) (map (\<lambda>r. ToNumber H (getField r f)) data)
         in NumberStats (foldl minN PosInf values) (foldl maxN NegInf values)
              (roundCents (divN (foldl addN (Finite 0) values) (Finite (of_nat (length values))))))
      else if type = ''string'' then
        (let unique = getUniqueValues H data f
         in StringStats (length unique) (take 50 unique))
      else NoStats)"

section \<open>The dataset store and the tools\<close>

text \<open>
  Arrays of records are mutable objects, and \<open>sort\<close> works in place: the server's
  state holds the arrays in a store, by address, and a dataset refers to its record
  array by its address. Creating an array (a spread copy, the result of \<open>filter\<close> or of
  \<open>slice\<close>) takes the next unused address. The records themselves are never written
  to and are held as values; so are the arrays of numbers, strings and result entries
  that a call builds for itself.
\<close>

type_synonym addr = nat

record Dataset =
  ds_name :: string
  ds_description :: string
  ds_schema :: "(string \<times> string) list"
  ds_data :: addr

record server =
  datasets :: "(string \<times> Dataset) list"
  arrays :: "addr \<Rightarrow> row list"
  fresh :: addr

definition newArray :: "row list \<Rightarrow> server \<Rightarrow> addr \<times> server" where
  "newArray xs s = (fresh s, s\<lparr>arrays := (arrays s)(fresh s := xs), fresh := Suc (fresh s)\<rparr>)"

definition sortInPlace :: "host \<Rightarrow> (row \<Rightarrow> row \<Rightarrow> int) \<Rightarrow> addr \<Rightarrow> server \<Rightarrow> server" where
  "sortInPlace H cmp a s = s\<lparr>arrays := (arrays s)(a := sortRows H cmp (arrays s a))\<rparr>"

text \<open>\<open>applyFilters\<close> on an array of the store: the result is a new array.\<close>

definition applyFiltersAt :: "host \<Rightarrow> addr \<Rightarrow> jsval list \<Rightarrow> server \<Rightarrow> (error + addr) \<times> server" where
  "applyFiltersAt H a filters s =
     (case applyFilters H (arrays s a) filters of
        Inl e \<Rightarrow> (Inl e, s)
      | Inr out \<Rightarrow> (let (b, s') = newArray out s in (Inr b, s')))"

text \<open>\<open>sortData\<close> on an array of the store: \<open>[...data].sort(...)\<close> copies, then sorts the copy.\<close>

definition sortDataAt :: "host \<Rightarrow> addr \<Rightarrow> SortSpec \<Rightarrow> server \<Rightarrow> addr \<times> server" where
  "sortDataAt H a spec s =
     (let (c, s') = newArray (arrays s a) s in (c, sortInPlace H (compareRows H spec) c s'))"

subsection \<open>Requests and results\<close>

text \<open>
  The request bodies; an omitted property is \<open>None\<close>. The entries of \<open>filters\<close> are
  taken as they come. Property names that several objects share (\<open>dataset\<close>,
  \<open>filters\<close>, \<open>name\<close>, \<open>offset\<close>, \<open>limit\<close>) carry a prefix here, and the \<open>data\<close> of a
  query result is its \<open>page\<close>.
\<close>

record QueryParams =
  q_dataset :: string
  q_filters :: "jsval list option"
  q_sort :: "SortSpec option"
  q_limit :: "number option"
  q_offset :: "number option"

record AggregateParams =
  a_dataset :: string
  a_groupBy :: string
  a_metric :: string
  a_operation :: string

record ExportParams =
  e_dataset :: string
  e_filters :: "jsval list option"
  e_format :: "string option"

datatype ToolCall =
  ListDatasets
| GetSchema string
| QueryData QueryParams
| Aggregate AggregateParams
| ExportData ExportParams

record DatasetInfo =
  di_name :: string
  di_description :: string
  di_recordCount :: nat
  di_columns :: "string list"

record QueryResult =
  page :: "row list"
  totalCount :: nat
  r_offset :: number
  r_limit :: number
  hasMore :: bool

text \<open>
  The exported text: the CSV lines, or the JSON serialisation of the records, which is
  the host's and is kept as the records it is applied to.
\<close>

datatype exported = Csv string | Json "row list"

datatype payload =
  NotFound
| Listing "DatasetInfo list"
| SchemaOf string string nat "(string \<times> string \<times> stats) list"
| Queried QueryResult
| Aggregated string string string "AggregateEntry list"
| Exported string nat exported

text \<open>The tool result: the payload (serialised as the one text content) and \<open>isError\<close>.\<close>

record ToolResult =
  content :: payload
  isError :: bool

definition notFound :: ToolResult where
  "notFound = \<lparr>content = NotFound, isError = True\<rparr>"

definition ok :: "payload \<Rightarrow> ToolResult" where
  "ok p = \<lparr>content = p, isError = False\<rparr>"

subsection \<open>The five tools\<close>

definition listDatasets :: "server \<Rightarrow> (error + ToolResult) \<times> server" where
  "listDatasets s =
     (Inr (ok (Listing (map (\<lambda>(n, ds).
        \<lparr>di_name = ds_name ds, di_description = ds_description ds,
         di_recordCount = length (arrays s (ds_data ds)),
         di_columns = map fst (ds_schema ds)\<rparr>) (datasets s)))), s)"

definition getSchema :: "host \<Rightarrow> string \<Rightarrow> server \<Rightarrow> (error + ToolResult) \<times> server" where
  "getSchema H datasetName s =
     (case map_of (datasets s) datasetName of
        None \<Rightarrow> (Inr notFound, s)
      | Some dataset \<Rightarrow>
          (let schemaWithStats =
                 map (\<lambda>(f, type). (f, type, getFieldStats H (arrays s (ds_data dataset)) f type))
                   (ds_schema dataset)
           in (Inr (ok (SchemaOf (ds_name dataset) (ds_description dataset)
                          (length (arrays s (ds_data dataset))) schemaWithStats)), s)))"

text \<open>The defaults of the destructured request body apply to an omitted property.\<close>

definition filtersOf :: "QueryParams \<Rightarrow> jsval list" where
  "filtersOf q = (case q_filters q of None \<Rightarrow> [] | Some fs \<Rightarrow> fs)"

definition limitOf :: "QueryParams \<Rightarrow> number" where
  "limitOf q = (case q_limit q of None \<Rightarrow> Finite 100 | Some l \<Rightarrow> l)"

definition offsetOf :: "QueryParams \<Rightarrow> number" where
  "offsetOf q = (case q_offset q of None \<Rightarrow> Finite 0 | Some k \<Rightarrow> k)"

definition queryData :: "host \<Rightarrow> QueryParams \<Rightarrow> server \<Rightarrow> (error + ToolResult) \<times> server" where
  "queryData H q s =
     (let filters = filtersOf q; limit = limitOf q; offset = offsetOf q
      in case map_of (datasets s) (q_dataset q) of
           None \<Rightarrow> (Inr notFound, s)
         | Some dataset \<Rightarrow>
             (let (d0, s0) = newArray (arrays s (ds_data dataset)) s
              in case (if length filters > 0 then applyFiltersAt H d0 filters s0 else (Inr d0, s0)) of
                   (Inl e, s1) \<Rightarrow> (Inl e, s1)
                 | (Inr d1, s1) \<Rightarrow>
                     (let total = length (arrays s1 d1);
                          (d2, s2) = (case q_sort q of None \<Rightarrow> (d1, s1)
                                      | Some spec \<Rightarrow> sortDataAt H d1 spec s1);
                          (d3, s3) = newArray (slice (arrays s2 d2) offset (addN offset limit)) s2
                      in (Inr (ok (Queried
                            \<lparr>page = arrays s3 d3, totalCount = total, r_offset = offset,
                             r_limit = limit,
                             hasMore = lessN (addN offset limit) (Finite (of_nat total))\<rparr>)), s3))))"

definition aggregate :: "host \<Rightarrow> AggregateParams \<Rightarrow> server \<Rightarrow> (error + ToolResult) \<times> server" where
  "aggregate H q s =
     (case map_of (datasets s) (a_dataset q) of
        None \<Rightarrow> (Inr notFound, s)
      | Some dataset \<Rightarrow>
          (let results = aggregateData H (arrays s (ds_data dataset)) (a_groupBy q) (a_metric q)
                           (a_operation q)
           in (Inr (ok (Aggregated (a_groupBy q) (a_metric q) (a_operation q) results)), s)))"

definition csvCell :: "host \<Rightarrow> row \<Rightarrow> string \<Rightarrow> string" where
  "csvCell H r h =
     (case getField r h of
        JStr v \<Rightarrow> (if includesStr v '','' then [CHR 0x22] @ v @ [CHR 0x22] else v)
      | v \<Rightarrow> ToString H v)"

definition exportData :: "host \<Rightarrow> ExportParams \<Rightarrow> server \<Rightarrow> (error + ToolResult) \<times> server" where
  "exportData H q s =
     (let filters = (case e_filters q of None \<Rightarrow> [] | Some fs \<Rightarrow> fs);
          format = (case e_format q of None \<Rightarrow> ''json'' | Some f \<Rightarrow> f)
      in case map_of (datasets s) (e_dataset q) of
           None \<Rightarrow> (Inr notFound, s)
         | Some dataset \<Rightarrow>
             (let (d0, s0) = newArray (arrays s (ds_data dataset)) s
              in case (if length filters > 0 then applyFiltersAt H d0 filters s0 else (Inr d0, s0)) of
                   (Inl e, s1) \<Rightarrow> (Inl e, s1)
                 | (Inr d1, s1) \<Rightarrow>
                     (let exportContent =
                            (if format = ''csv'' then
                               (let headers = map fst (ds_schema dataset);
                                    rows = map (\<lambda>r. joinWith '','' (map (csvCell H r) headers))
                                             (arrays s1 d1)
                                in Csv (joinWith [CHR 0x0A] (joinWith '','' headers # rows)))
                             else Json (arrays s1 d1))
                      in (Inr (ok (Exported format (length (arrays s1 d1)) exportContent)), s1))))"

text \<open>The routes \<open>/api/tools/<name>\<close>; a throw in a handler ends the request in an error.\<close>

definition callServerTool :: "host \<Rightarrow> ToolCall \<Rightarrow> server \<Rightarrow> (error + ToolResult) \<times> server" where
  "callServerTool H call s =
     (case call of
        ListDatasets \<Rightarrow> listDatasets s
      | GetSchema n \<Rightarrow> getSchema H n s
      | QueryData q \<Rightarrow> queryData H q s
      | Aggregate q \<Rightarrow> aggregate H q s
      | ExportData q \<Rightarrow> exportData H q s)"

section \<open>The relay of the host page\<close>

text \<open>
  The host page receives \<open>message\<close> events. An event has a source window and data; the
  page knows the window of the application frame. The data of a message is a
  structured clone: beside the JSON values it can hold a \<open>BigInt\<close>, which has a string
  but no JSON serialisation. The values here are finite trees; an object that
  contains itself and the built-in objects a clone can also carry are not among them.
\<close>

datatype clone = CPrim scalar | BigInt int | CArr "clone list" | CObj "(string \<times> clone) list"

type_synonym window = nat

record MessageEvent =
  source :: window
  edata :: clone

datatype logType = request | response | error | info

datatype posted =
  ResultResponse clone clone
| ErrorResponse clone int string

text \<open>
  What the page does is kept in its state: the status line, the log (newest entry
  first, at most thirty), the messages posted to the frame, and the calls made to the
  server.
\<close>

record page =
  contentWindow :: window
  connected :: bool
  statusText :: string
  logContent :: "(logType \<times> clone) list"
  outbox :: "posted list"
  fetched :: "(string \<times> clone) list"

text \<open>Truthiness and property access on message values.\<close>

definition truthyC :: "clone \<Rightarrow> bool" where
  "truthyC v = (case v of CPrim s \<Rightarrow> truthy s | BigInt n \<Rightarrow> n \<noteq> 0 | _ \<Rightarrow> True)"

definition nullishC :: "clone \<Rightarrow> bool" where
  "nullishC v = (v = CPrim JUndefined \<or> v = CPrim JNull)"

text \<open>
  \<open>v.k\<close> for a value that is neither \<open>null\<close> nor \<open>undefined\<close> and a property name no
  message value inherits: the own property of an object, \<open>undefined\<close> otherwise.
\<close>

definition getPropC :: "clone \<Rightarrow> string \<Rightarrow> clone" where
  "getPropC v k =
     (case v of
        CObj kvs \<Rightarrow> (case map_of kvs k of None \<Rightarrow> CPrim JUndefined | Some x \<Rightarrow> x)
      | _ \<Rightarrow> CPrim JUndefined)"

text \<open>The decimal digits of a natural number, and the string of a \<open>BigInt\<close>.\<close>

fun decimal :: "nat \<Rightarrow> string" where
  "decimal n =
     (if n < 10 then [''0123456789'' ! n]
      else decimal (n div 10) @ [''0123456789'' ! (n mod 10)])"

definition bigIntString :: "int \<Rightarrow> string" where
  "bigIntString n = (if n < 0 then ''-'' @ decimal (nat (- n)) else decimal (nat n))"

text \<open>
  \<open>String(v)\<close> for a message value, as a template literal computes it; it throws for
  an object with an own property \<open>toString\<close>, as for a JSON value.
\<close>

fun ToStringC :: "host \<Rightarrow> clone \<Rightarrow> error + string"
  and elemStringsC :: "host \<Rightarrow> clone list \<Rightarrow> error + string list" where
  "ToStringC H (CPrim s) = Inr (ToString H s)"
| "ToStringC H (BigInt n) = Inr (bigIntString n)"
| "ToStringC H (CArr xs) =
     (case elemStringsC H xs of Inl e \<Rightarrow> Inl e | Inr ss \<Rightarrow> Inr (joinWith '','' ss))"
| "ToStringC H (CObj kvs) =
     (if ''toString'' \<in> set (map fst kvs)
      then Inl (TypeError ''Cannot convert object to primitive value'')
      else Inr ''[object Object]'')"
| "elemStringsC H [] = Inr []"
| "elemStringsC H (x # xs) =
     (case (if x = CPrim JUndefined \<or> x = CPrim JNull then Inr [] else ToStringC H x) of
        Inl e \<Rightarrow> Inl e
      | Inr s \<Rightarrow> (case elemStringsC H xs of Inl e \<Rightarrow> Inl e | Inr ss \<Rightarrow> Inr (s # ss)))"

text \<open>
  \<open>JSON.stringify\<close> throws a \<open>TypeError\<close> when it meets a \<open>BigInt\<close>, at any depth.
\<close>

fun serialisable :: "clone \<Rightarrow> bool"
  and serialisableAll :: "clone list \<Rightarrow> bool"
  and serialisableProps :: "(string \<times> clone) list \<Rightarrow> bool" where
  "serialisable (CPrim s) = True"
| "serialisable (BigInt n) = False"
| "serialisable (CArr xs) = serialisableAll xs"
| "serialisable (CObj kvs) = serialisableProps kvs"
| "serialisableAll [] = True"
| "serialisableAll (x # xs) = (serialisable x \<and> serialisableAll xs)"
| "serialisableProps [] = True"
| "serialisableProps (kv # kvs) = (serialisable (snd kv) \<and> serialisableProps kvs)"

definition cannotSerialise :: error where
  "cannotSerialise = TypeError ''Do not know how to serialize a BigInt''"

text \<open>
  \<open>addLog\<close>: a string is logged as it is, any other data as its JSON text, which is
  kept as the data it is the text of. The serialisation can throw.
\<close>

definition addLog :: "logType \<Rightarrow> clone \<Rightarrow> page \<Rightarrow> error + page" where
  "addLog t d st =
     (if serialisable d then Inr (st\<lparr>logContent := take 30 ((t, d) # logContent st)\<rparr>)
      else Inl cannotSerialise)"

text \<open>\<open>addLog\<close> with a string, which cannot throw.\<close>

definition addLogText :: "logType \<Rightarrow> string \<Rightarrow> page \<Rightarrow> page" where
  "addLogText t txt st = st\<lparr>logContent := take 30 ((t, CPrim (JStr txt)) # logContent st)\<rparr>"

definition setStatus :: "bool \<Rightarrow> string \<Rightarrow> page \<Rightarrow> page" where
  "setStatus c m st =
     st\<lparr>connected := c,
        statusText := (if m \<noteq> [] then m else if c then ''Connected'' else ''Disconnected'')\<rparr>"

definition postMessage :: "posted \<Rightarrow> page \<Rightarrow> page" where
  "postMessage m st = st\<lparr>outbox := outbox st @ [m]\<rparr>"

text \<open>\<open>String(error)\<close>.\<close>

fun errorString :: "error \<Rightarrow> string" where
  "errorString (TypeError m) = ''TypeError: '' @ m"
| "errorString (SyntaxError m) = ''SyntaxError: '' @ m"

text \<open>
  \<open>callTool\<close> of the host page: the tool's name goes into the URL, the arguments into
  the body as JSON text, and the answer is the parsed JSON body. The request itself is
  the parameter \<open>post\<close>; it fails when the server cannot be reached or its answer is
  not JSON. Each request made is recorded. Building the URL or the body can throw, and
  then no request is made.
\<close>

definition callTool ::
  "host \<Rightarrow> (string \<Rightarrow> clone \<Rightarrow> error + clone) \<Rightarrow> clone \<Rightarrow> clone \<Rightarrow> page \<Rightarrow> (error + clone) \<times> page" where
  "callTool H post nm args st =
     (case ToStringC H nm of
        Inl e \<Rightarrow> (Inl e, st)
      | Inr n \<Rightarrow>
          (if \<not> serialisable args then (Inl cannotSerialise, st)
           else
             (post (''http://localhost:3001/api/tools/'' @ n) args,
              st\<lparr>fetched := fetched st @ [(''http://localhost:3001/api/tools/'' @ n, args)]\<rparr>)))"

text \<open>The arguments of a tool call: \<open>message.params.arguments || {}\<close>.\<close>

definition toolArguments :: "clone \<Rightarrow> clone" where
  "toolArguments message =
     (if truthyC (getPropC (getPropC message ''params'') ''arguments'')
      then getPropC (getPropC message ''params'') ''arguments'' else CObj [])"

text \<open>
  The \<open>switch\<close> on the method: the result of the request, or what was thrown. The
  text of a log entry is a template literal, whose string conversion can throw.
\<close>

definition dispatch ::
  "host \<Rightarrow> (string \<Rightarrow> clone \<Rightarrow> error + clone) \<Rightarrow> clone \<Rightarrow> page \<Rightarrow> (error + clone) \<times> page" where
  "dispatch H post message st =
     (let method = getPropC message ''method''; params = getPropC message ''params'' in
      if method = CPrim (JStr ''ui/initialize'') then
        (let v = (if nullishC params then CPrim JUndefined else getPropC params ''protocolVersion'')
         in (Inr (CObj
              [(''protocolVersion'', if truthyC v then v else CPrim (JStr ''2025-11-21'')),
               (''hostCapabilities'', CObj [(''serverTools'', CObj []), (''logging'', CObj [])]),
               (''hostInfo'', CObj [(''name'', CPrim (JStr ''DataExplorerHost'')),
                                    (''version'', CPrim (JStr ''1.0.0''))]),
               (''hostContext'', CObj [])]),
             setStatus True ''Connected'' st))
      else if method = CPrim (JStr ''tools/call'') then
        (if nullishC params
         then (Inl (cannotRead (params = CPrim JNull) ''name''), st)
         else callTool H post (getPropC params ''name'') (toolArguments message) st)
      else if method = CPrim (JStr ''ping'') then (Inr (CObj []), st)
      else
        (case ToStringC H method of
           Inl e \<Rightarrow> (Inl e, st)
         | Inr m \<Rightarrow> (Inr (CObj []), addLogText info (''Unhandled: '' @ m) st)))"

text \<open>The text of the log entry of a response.\<close>

definition responseNote :: "host \<Rightarrow> clone \<Rightarrow> error + string" where
  "responseNote H message =
     (if getPropC message ''method'' = CPrim (JStr ''tools/call'') then
        (let params = getPropC message ''params'';
             nm = (if nullishC params then CPrim JUndefined else getPropC params ''name'')
         in case ToStringC H nm of Inl e \<Rightarrow> Inl e | Inr n \<Rightarrow> Inr (n @ '' OK''))
      else Inr ''OK'')"

text \<open>The \<open>catch\<close> block.\<close>

definition fail :: "clone \<Rightarrow> error \<Rightarrow> page \<Rightarrow> page" where
  "fail message e st =
     postMessage (ErrorResponse (getPropC message ''id'') (- 32000) (errorString e))
       (addLogText error (errorString e) st)"

text \<open>
  The log entry of a request: its method, and whether it has parameters. It is
  serialised, so it throws for a method that holds a \<open>BigInt\<close>.
\<close>

definition requestLog :: "clone \<Rightarrow> page \<Rightarrow> error + page" where
  "requestLog message st =
     addLog request
       (CObj [(''method'', getPropC message ''method''),
              (''params'', if truthyC (getPropC message ''params'')
                           then CPrim (JStr ''...'') else CPrim JUndefined)]) st"

text \<open>
  The listener. The request is logged before the \<open>try\<close> block is entered: a throw
  there, like any throw outside the block, ends the call with nothing logged and
  nothing posted.
\<close>

definition handleMessage ::
  "host \<Rightarrow> (string \<Rightarrow> clone \<Rightarrow> error + clone) \<Rightarrow> MessageEvent \<Rightarrow> page \<Rightarrow> page" where
  "handleMessage H post event st =
     (if source event \<noteq> contentWindow st then st
      else
        let message = edata event in
        if \<not> truthyC message \<or> (case message of CArr xs \<Rightarrow> False | CObj kvs \<Rightarrow> False | _ \<Rightarrow> True)
        then st
        else if getPropC message ''jsonrpc'' = CPrim (JStr ''2.0'') \<and>
                getPropC message ''id'' \<noteq> CPrim JUndefined then
          (case requestLog message st of
             Inl e \<Rightarrow> st
           | Inr st1 \<Rightarrow>
              (case dispatch H post message st1 of
                 (Inl e, st2) \<Rightarrow> fail message e st2
               | (Inr result, st2) \<Rightarrow>
                   (case responseNote H message of
                      Inl e \<Rightarrow> fail message e st2
                    | Inr txt \<Rightarrow>
                        postMessage (ResultResponse (getPropC message ''id'') result)
                          (addLogText response txt st2))))
        else if truthyC (getPropC message ''method'') then
          (case ToStringC H (getPropC message ''method'') of
             Inl e \<Rightarrow> st
           | Inr m \<Rightarrow> addLogText info (''Notification: '' @ m) st)
        else st)"

section \<open>A host for the examples\<close>

text \<open>
  The examples need the host's functions as values. This host writes and reads
  whole numbers in decimal, folds the case of ASCII letters, compares strings by code
  units and sorts by stable insertion; it agrees with a JavaScript engine on whole
  numbers, on strings of digits and on lower-case ASCII words, which is all the
  examples use it for, and with every engine on the sort of an array under a
  consistent comparator. The second host sorts as V8 does.
\<close>

definition isDigit :: "char \<Rightarrow> bool" where
  "isDigit c = (c \<in> set ''0123456789'')"

definition digitValue :: "char \<Rightarrow> nat" where
  "digitValue c = length (takeWhile (\<lambda>d. d \<noteq> c) ''0123456789'')"

definition asciiLower :: "char \<Rightarrow> char" where
  "asciiLower c =
     (case map_of (zip ''ABCDEFGHIJKLMNOPQRSTUVWXYZ'' ''abcdefghijklmnopqrstuvwxyz'') c of
        None \<Rightarrow> c | Some l \<Rightarrow> l)"

definition exampleHost :: host where
  "exampleHost =
     \<lparr>numToString =
        (\<lambda>n. case n of
                Finite q \<Rightarrow> (if q < 0 then ''-'' @ decimal (nat \<lfloor>- q\<rfloor>) else decimal (nat \<lfloor>q\<rfloor>))
              | PosInf \<Rightarrow> ''Infinity''
              | NegInf \<Rightarrow> ''-Infinity''
              | NaN \<Rightarrow> ''NaN''),
      stringToNumber = (\<lambda>s. if list_all isDigit s
                              then fl (of_nat (foldl (\<lambda>n c. 10 * n + digitValue c) 0 s))
                              else NaN),
      toLowerCase = map asciiLower,
      localeCompare = (\<lambda>s t. if s < t then - 1 else if t < s then 1 else 0),
      sortRows = stableSort,
      sortEntries = stableSort\<rparr>"

definition v8Host :: host where
  "v8Host = exampleHost\<lparr>sortRows := v8Sort, sortEntries := v8Sort\<rparr>"

definition salesRows :: "row list" where
  "salesRows =
     [[(''region'', JStr ''West''), (''revenue'', JNum (Finite 10))],
      [(''region'', JStr ''East''), (''revenue'', JNum (Finite 25))],
      [(''region'', JStr ''West''), (''revenue'', JNum (Finite 5))]]"

text \<open>The id a posted response bears.\<close>

definition responseId :: "posted \<Rightarrow> clone" where
  "responseId m = (case m of ResultResponse i r \<Rightarrow> i | ErrorResponse i c t \<Rightarrow> i)"

text \<open>The page as \<open>init\<close> leaves it, for the frame's window \<open>w\<close>.\<close>

definition initialPage :: "window \<Rightarrow> page" where
  "initialPage w =
     \<lparr>contentWindow = w, connected = False, statusText = ''Waiting for app...'',
      logContent = [(info, CPrim (JStr ''Host ready''))], outbox = [], fetched = []\<rparr>"

text \<open>Messages and a server for the examples.\<close>

definition requestOf :: "clone \<Rightarrow> clone \<Rightarrow> clone" where
  "requestOf i m = CObj [(''jsonrpc'', CPrim (JStr ''2.0'')), (''id'', i), (''method'', m)]"

definition pingUntagged :: clone where
  "pingUntagged = CObj [(''id'', CPrim (JNum (Finite 7))), (''method'', CPrim (JStr ''ping''))]"

definition pingRequest :: clone where
  "pingRequest = requestOf (CPrim (JNum (Finite 7))) (CPrim (JStr ''ping''))"

definition unknownRequest :: clone where
  "unknownRequest = requestOf (CPrim (JStr ''42'')) (CPrim (JStr ''resources/list''))"

definition toolRequest :: clone where
  "toolRequest =
     CObj [(''jsonrpc'', CPrim (JStr ''2.0'')), (''id'', CPrim (JNum (Finite 3))),
           (''method'', CPrim (JStr ''tools/call'')),
           (''params'', CObj [(''name'', CPrim (JStr ''list-datasets''))])]"

definition noServer :: "string \<Rightarrow> clone \<Rightarrow> error + clone" where
  "noServer url body = Inl (TypeError ''Failed to fetch'')"

text \<open>A server with one dataset, for the examples.\<close>

definition exampleServer :: server where
  "exampleServer =
     \<lparr>datasets =
        [(''sales'', \<lparr>ds_name = ''sales'', ds_description = ''Sales by region'',
                      ds_schema = [(''region'', ''string''), (''revenue'', ''number'')],
                      ds_data = 0\<rparr>)],
      arrays = (\<lambda>a. if a = 0 then salesRows else []),
      fresh = 1\<rparr>"

text \<open>
  The arrays of the datasets are arrays of the store: their addresses are in use.
  A later state extends an earlier one when it has the same datasets and every array
  that was in use has the contents it had.
\<close>

definition wellAllocated :: "server \<Rightarrow> bool" where
  "wellAllocated s = (\<forall>(n, ds)\<in>set (datasets s). ds_data ds < fresh s)"

definition extends :: "server \<Rightarrow> server \<Rightarrow> bool" where
  "extends s s' =
     (datasets s' = datasets s \<and> fresh s \<le> fresh s' \<and> (\<forall>a<fresh s. arrays s' a = arrays s a))"

section \<open>The notions of the specification\<close>

subsection \<open>Filters\<close>

text \<open>
  A filter as the specification has it: a field, one of the operators \<open>eq\<close>, \<open>ne\<close>,
  \<open>gt\<close>, \<open>gte\<close>, \<open>lt\<close>, \<open>lte\<close>, \<open>contains\<close>, \<open>in\<close>, and a value; and the JSON object
  that stands for it in a request.
\<close>

record Filter =
  field :: string
  operator :: string
  val :: jsval

definition asFilter :: "Filter \<Rightarrow> jsval" where
  "asFilter f =
     Obj [(''field'', Prim (JStr (field f))), (''operator'', Prim (JStr (operator f))),
          (''value'', val f)]"





subsection \<open>Doubles\<close>

text \<open>Every finite double is a whole multiple of the least positive one.\<close>

definition representable :: "number \<Rightarrow> bool" where
  "representable a = (case a of Finite x \<Rightarrow> x / pow2 (- 1074) \<in> \<int> | _ \<Rightarrow> True)"

subsection \<open>Sorted columns\<close>

text \<open>Reading a column as numbers or as strings, to state how a sorted column is ordered.\<close>

definition numberAt :: "string \<Rightarrow> row \<Rightarrow> number" where
  "numberAt f r = (case getField r f of JNum n \<Rightarrow> n | _ \<Rightarrow> NaN)"

definition stringAt :: "string \<Rightarrow> row \<Rightarrow> string" where
  "stringAt f r = (case getField r f of JStr s \<Rightarrow> s | _ \<Rightarrow> [])"

subsection \<open>Groups\<close>

text \<open>
  The keys of a list in the order of their first occurrence, the records of a group,
  and the operations on the numbers of a group: the sum adds the numbers one at a
  time in their order, each addition rounding; the least and the greatest are
  described by what they are.
\<close>

fun firstSeen :: "'a list \<Rightarrow> 'a list" where
  "firstSeen [] = []"
| "firstSeen (x # xs) = x # removeAll x (firstSeen xs)"

definition groupRows :: "host \<Rightarrow> row list \<Rightarrow> string \<Rightarrow> string \<Rightarrow> row list" where
  "groupRows H rows groupBy g = filter (\<lambda>r. groupKey H r groupBy = g) rows"

fun addedLast :: "number list \<Rightarrow> number" where
  "addedLast [] = Finite 0"
| "addedLast (x # xs) = addN (addedLast xs) x"

definition total :: "number list \<Rightarrow> number" where
  "total xs = addedLast (rev xs)"

definition isLeast :: "number \<Rightarrow> number list \<Rightarrow> bool" where
  "isLeast m xs = (m \<in> set xs \<and> (\<forall>x\<in>set xs. \<not> lessN x m))"

definition isGreatest :: "number \<Rightarrow> number list \<Rightarrow> bool" where
  "isGreatest m xs = (m \<in> set xs \<and> (\<forall>x\<in>set xs. \<not> lessN m x))"

text \<open>
  A number rounded to two decimals, in doubles: the product with 100 is rounded to
  the nearest whole number \<open>k\<close>, a half going upwards, and the result is the double
  nearest to \<open>k / 100\<close>.
\<close>

definition centsOf :: "number \<Rightarrow> number \<Rightarrow> bool" where
  "centsOf x a =
     (case mulN x (Finite 100) of
        Finite p \<Rightarrow> (\<exists>k::int. of_int k - 1 / 2 \<le> p \<and> p < of_int k + 1 / 2 \<and> a = fl (of_int k / 100))
      | product \<Rightarrow> a = product)"

section \<open>Properties of the numbers\<close>

lemma lessN_NaN [simp]: "lessN a NaN = False" "lessN NaN a = False"
  by (cases a; simp)+

lemma lessN_irrefl [simp]: "lessN a a = False"
  by (cases a) simp_all

lemma lessN_trans: "lessN a b \<Longrightarrow> lessN b c \<Longrightarrow> lessN a c"
  by (cases a; cases b; cases c) simp_all

lemma lessN_asym: "lessN a b \<Longrightarrow> \<not> lessN b a"
  by (cases a; cases b) simp_all

lemma lessN_total: "a \<noteq> NaN \<Longrightarrow> b \<noteq> NaN \<Longrightarrow> lessN a b \<or> a = b \<or> lessN b a"
  by (cases a; cases b) auto


subsection \<open>Powers of two and the binary exponent\<close>

lemma pow2_powi: "pow2 k = 2 powi k"
  by (simp add: pow2_def power_int_def power_one_over)

lemma pow2_pos [simp]: "0 < pow2 k"
  by (simp add: pow2_powi)

lemma pow2_add: "pow2 (a + b) = pow2 a * pow2 b"
  by (simp add: pow2_powi power_int_add)

lemma pow2_mono: "a \<le> b \<Longrightarrow> pow2 a \<le> pow2 b"
  by (simp add: pow2_powi power_int_increasing)

lemma pow2_less_iff: "pow2 a < pow2 b \<longleftrightarrow> a < b"
proof
  assume "pow2 a < pow2 b"
  then have "\<not> pow2 b \<le> pow2 a" by simp
  then have "\<not> b \<le> a" using pow2_mono by blast
  then show "a < b" by simp
next
  assume "a < b"
  then show "pow2 a < pow2 b" by (simp add: pow2_powi power_int_strict_increasing)
qed

lemma pow2_nat: "pow2 (int n) = 2 ^ n"
  by (simp add: pow2_def)

lemma exponent_bounds:
  assumes "0 < x"
  shows "pow2 (exponent x) \<le> x \<and> x < pow2 (exponent x + 1)"
proof -
  obtain p q where pq: "quotient_of x = (p, q)" by (cases "quotient_of x") auto
  have q: "0 < q" using quotient_of_denom_pos[OF pq] .
  have x: "x = of_int p / of_int q" using quotient_of_div[OF pq] .
  have p: "0 < p" using assms q x by (simp add: zero_less_divide_iff)
  let ?k = "bitlen p - bitlen q"
  have bp: "1 \<le> bitlen p" and bq: "1 \<le> bitlen q"
    using p q by (simp_all add: bitlen_alt_def)
  have plo: "(2::rat) ^ nat (bitlen p - 1) \<le> of_int p" and phi: "of_int p < (2::rat) ^ nat (bitlen p)"
    using bitlen_bounds[OF p]
    by (metis of_int_le_iff of_int_numeral of_int_power, metis of_int_less_iff of_int_numeral of_int_power)
  have qlo: "(2::rat) ^ nat (bitlen q - 1) \<le> of_int q" and qhi: "of_int q < (2::rat) ^ nat (bitlen q)"
    using bitlen_bounds[OF q]
    by (metis of_int_le_iff of_int_numeral of_int_power, metis of_int_less_iff of_int_numeral of_int_power)
  have plo': "pow2 (bitlen p - 1) \<le> of_int p" and phi': "of_int p < pow2 (bitlen p)"
    using plo phi bp by (simp_all add: pow2_def)
  have qlo': "pow2 (bitlen q - 1) \<le> of_int q" and qhi': "of_int q < pow2 (bitlen q)"
    using qlo qhi bq by (simp_all add: pow2_def)
  have qpos: "(0::rat) < of_int q" using q by simp
  have low: "pow2 (?k - 1) \<le> x"
  proof -
    have "pow2 (?k - 1) * pow2 (bitlen q) = pow2 (bitlen p - 1)"
      by (simp add: pow2_add[symmetric])
    then have "pow2 (?k - 1) * of_int q \<le> pow2 (bitlen p - 1)"
      using qhi' by (metis less_imp_le mult_left_mono pow2_pos)
    then have "pow2 (?k - 1) * of_int q \<le> of_int p" using plo' by simp
    then show ?thesis using qpos by (simp add: x pos_le_divide_eq)
  qed
  have high: "x < pow2 (?k + 1)"
  proof -
    have "pow2 (?k + 1) * pow2 (bitlen q - 1) = pow2 (bitlen p)"
      by (simp add: pow2_add[symmetric])
    then have "pow2 (bitlen p) \<le> pow2 (?k + 1) * of_int q"
      using qlo' by (metis less_imp_le mult_left_mono pow2_pos)
    then have "of_int p < pow2 (?k + 1) * of_int q" using phi' by simp
    then show ?thesis using qpos by (simp add: x pos_divide_less_eq)
  qed
  show ?thesis
  proof (cases "pow2 ?k \<le> x")
    case True
    then have "exponent x = ?k" by (simp add: exponent_def pq)
    with True high show ?thesis by simp
  next
    case False
    then have "exponent x = ?k - 1" by (simp add: exponent_def pq)
    with False low show ?thesis by simp
  qed
qed

subsection \<open>Rounding\<close>

lemma roundEven_of_int [simp]: "roundEven (of_int k) = k"
  by (simp add: roundEven_def)

lemma roundEven_ge_1: "1 \<le> y \<Longrightarrow> 1 \<le> roundEven y"
proof -
  assume "1 \<le> y"
  then have "1 \<le> \<lfloor>y\<rfloor>" by (simp add: le_floor_iff)
  then show ?thesis by (auto simp: roundEven_def Let_def)
qed

text \<open>A whole number up to \<open>2 ^ 53\<close> is a double.\<close>

lemma fl_of_nat:
  assumes "m \<le> 2 ^ 53"
  shows "fl (of_nat m) = Finite (of_nat m)"
proof (cases "m = 0")
  case True
  then show ?thesis by (simp add: fl_def)
next
  case False
  let ?x = "of_nat m :: rat"
  have pos: "0 < ?x" using False by simp
  have le: "?x \<le> pow2 53" using assms
    by (metis of_nat_le_iff of_nat_numeral of_nat_power pow2_nat int_ops(3) numeral_eq_iff)
  let ?e = "max (exponent ?x) (- 1022)"
  have lo: "pow2 (exponent ?x) \<le> ?x" using exponent_bounds[OF pos] by simp
  have e53: "?e \<le> 53"
  proof -
    have "pow2 (exponent ?x) \<le> pow2 53" using lo le by simp
    then have "\<not> pow2 53 < pow2 (exponent ?x)" by simp
    then have "exponent ?x \<le> 53" by (simp add: pow2_less_iff)
    then show ?thesis by simp
  qed
  have whole: "\<exists>k::int. ?x / pow2 (?e - 52) = of_int k"
  proof (cases "?e \<le> 52")
    case True
    then have "pow2 (?e - 52) = 1 / 2 ^ nat (52 - ?e)"
      by (auto simp: pow2_def) 
    then have "?x / pow2 (?e - 52) = of_int (int m * 2 ^ nat (52 - ?e))" by simp
    then show ?thesis by blast
  next
    case False
    with e53 have e: "?e = 53" by simp
    then have "exponent ?x = 53" by (simp add: max_def split: if_splits)
    with lo le have "?x = pow2 53" by simp
    then have "?x / pow2 (?e - 52) = of_int (2 ^ 52)" using e by (simp add: pow2_def)
    then show ?thesis by blast
  qed
  then obtain k :: int where k: "?x / pow2 (?e - 52) = of_int k" by blast
  have mul: "of_int k * pow2 (?e - 52) = ?x"
    using k by (metis nonzero_divide_eq_eq pow2_pos less_irrefl)
  have small: "\<not> pow2 1024 \<le> ?x"
  proof -
    have "pow2 53 < pow2 1024" by (simp add: pow2_less_iff)
    with le show ?thesis by simp
  qed
  show ?thesis
    using pos False k mul small by (simp add: fl_def Let_def)
qed

section \<open>Properties of the filter\<close>

lemma plain_ToStringV:
  "(plain v \<longrightarrow> (\<exists>s. ToStringV H v = Inr s))"
  "((\<forall>x\<in>set xs. plain x) \<longrightarrow> (\<exists>ss. elemStrings H xs = Inr ss))"
  by (induction H v and H xs rule: ToStringV_elemStrings.induct) (auto split: sum.splits)

lemma not_plain_ToStringV:
  "(\<not> plain v \<longrightarrow> (\<exists>e. ToStringV H v = Inl e))"
  "((\<exists>x\<in>set xs. \<not> plain x) \<longrightarrow> (\<exists>e. elemStrings H xs = Inl e))"
  by (induction H v and H xs rule: ToStringV_elemStrings.induct) (auto split: sum.splits)

lemma ToStringV_plain_iff: "(\<exists>s. ToStringV H v = Inr s) \<longleftrightarrow> plain v"
  using plain_ToStringV(1)[of v H] not_plain_ToStringV(1)[of v H] by auto

lemma ToPrimitive_plain_iff: "(\<exists>s. ToPrimitive H v = Inr s) \<longleftrightarrow> plain v"
proof (cases v)
  case (Prim s)
  then show ?thesis by (simp add: ToPrimitive_def)
next
  case (Arr xs)
  then show ?thesis using ToStringV_plain_iff[of H v]
    by (auto simp: ToPrimitive_def split: sum.splits)
next
  case (Obj kvs)
  then show ?thesis using ToStringV_plain_iff[of H v]
    by (auto simp: ToPrimitive_def split: sum.splits)
qed

text \<open>A filter evaluates on a record without a throw exactly when it is well formed.\<close>

lemma filterTest_returns_iff: "(\<exists>b. filterTest H r f = Inr b) \<longleftrightarrow> wellFormed f"
proof (cases "nullish f \<or> \<not> plain (getProp f ''field'')")
  case True
  then show ?thesis
  proof
    assume "nullish f"
    then show ?thesis by (simp add: filterTest_def wellFormed_def)
  next
    assume np: "\<not> plain (getProp f ''field'')"
    then obtain e where "ToStringV H (getProp f ''field'') = Inl e"
      using not_plain_ToStringV(1) by blast
    with np show ?thesis by (simp add: filterTest_def wellFormed_def)
  qed
next
  case False
  then have nn: "\<not> nullish f" and pl: "plain (getProp f ''field'')" by simp_all
  obtain key where key: "ToStringV H (getProp f ''field'') = Inr key"
    using pl plain_ToStringV(1) by blast
  let ?op = "getProp f ''operator''"
  let ?w = "getProp f ''value''"
  consider (rel) "?op \<in> {Prim (JStr ''gt''), Prim (JStr ''gte''), Prim (JStr ''lt''),
                          Prim (JStr ''lte'')}"
    | (cont) "?op = Prim (JStr ''contains'')"
    | (isin) "?op = Prim (JStr ''in'')"
    | (other) "?op \<notin> {Prim (JStr ''gt''), Prim (JStr ''gte''), Prim (JStr ''lt''),
                         Prim (JStr ''lte''), Prim (JStr ''contains''), Prim (JStr ''in'')}"
    by blast
  then show ?thesis
  proof cases
    case rel
    then have "wellFormed f \<longleftrightarrow> (\<exists>s. ToPrimitive H ?w = Inr s)"
      using nn pl by (auto simp: wellFormed_def ToPrimitive_plain_iff)
    with rel nn key show ?thesis
      by (auto simp: filterTest_def Let_def split: sum.splits)
  next
    case cont
    then have "wellFormed f \<longleftrightarrow> (\<exists>s. ToStringV H ?w = Inr s)"
      using nn pl by (auto simp: wellFormed_def ToStringV_plain_iff)
    with cont nn key show ?thesis
      by (auto simp: filterTest_def Let_def split: sum.splits)
  next
    case isin
    with nn pl key show ?thesis
      by (auto simp: wellFormed_def filterTest_def Let_def split: jsval.splits scalar.splits)
  next
    case other
    with nn pl key show ?thesis by (auto simp: wellFormed_def filterTest_def Let_def)
  qed
qed

lemma every_total: "(\<forall>f\<in>set fs. wellFormed f) \<Longrightarrow> \<exists>b. every H r fs = Inr b"
proof (induction fs)
  case Nil
  show ?case by (rule exI[of _ True]) simp
next
  case (Cons f fs)
  then have "wellFormed f" by simp
  then obtain b where "filterTest H r f = Inr b"
    using filterTest_returns_iff by blast
  moreover obtain c where "every H r fs = Inr c" using Cons by auto
  ultimately show ?case by (cases b) auto
qed


lemma applyFilters_total:
  "(\<forall>f\<in>set fs. wellFormed f) \<Longrightarrow> \<exists>out. applyFilters H rows fs = Inr out"
proof (induction rows)
  case Nil
  then show ?case by simp
next
  case (Cons r rs)
  obtain b where "every H r fs = Inr b" using every_total[OF Cons.prems] by blast
  moreover obtain out where "applyFilters H rs fs = Inr out" using Cons by blast
  ultimately show ?case by simp
qed



lemma applyFilters_Nil: "applyFilters H rows [] = Inr rows"
  by (induction rows) auto

subsection \<open>The switch computes what the operators mean\<close>




lemma getProp_asFilter [simp]:
  "getProp (asFilter f) ''field'' = Prim (JStr (field f))"
  "getProp (asFilter f) ''operator'' = Prim (JStr (operator f))"
  "getProp (asFilter f) ''value'' = val f"
  "\<not> nullish (asFilter f)"
  by (simp_all add: asFilter_def getProp_def nullish_def)













text \<open>
  Claim C4, as stated, fails: an \<open>in\<close> filter whose value is a number makes the filter
  operation throw on the first record it is tested on.
\<close>

theorem applyFilters_in_scalar_throws:
  "applyFilters exampleHost salesRows
     [asFilter \<lparr>field = ''region'', operator = ''in'', val = Prim (JNum (Finite 5))\<rparr>]
   = Inl (TypeError ''filter.value.includes is not a function'')"
  by (simp add: salesRows_def filterTest_def asFilter_def getProp_def nullish_def
      exampleHost_def)

text \<open>
  Claim C4, amended. The filter operation returns a record list, and does not throw,
  for every record list and every list of well-formed filters. An entry of the list
  is well formed when it is not \<open>null\<close> or \<open>undefined\<close>, its field has a string
  conversion, and its value suits its operator: for \<open>in\<close> an array or a string, for a
  comparison or \<open>contains\<close> a value with a string conversion, for any other operator
  any value. Every scalar has a string conversion, so comparisons over values that are
  not numbers do not throw; an array or object has one unless an object in it has a
  property named \<open>toString\<close>. A single filter evaluates on a record without throwing
  exactly when it is well formed.
\<close>

theorem applyFilters_total_on_wellFormed:
  "((\<forall>f\<in>set filters. wellFormed f) \<longrightarrow> (\<exists>out. applyFilters H rows filters = Inr out)) \<and>
   ((\<exists>b. filterTest H r f = Inr b) \<longleftrightarrow> wellFormed f) \<and>
   (wellFormed (asFilter \<lparr>field = k, operator = op, val = w\<rparr>) \<longleftrightarrow>
      (if op \<in> {''gt'', ''gte'', ''lt'', ''lte'', ''contains''} then plain w
       else if op = ''in'' then (\<exists>xs. w = Arr xs) \<or> (\<exists>s. w = Prim (JStr s))
       else True)) \<and>
   (wellFormed u \<longrightarrow> \<not> nullish u \<and> plain (getProp u ''field'')) \<and>
   plain (Prim p) \<and>
   (plain (Obj kvs) \<longleftrightarrow> ''toString'' \<notin> fst ` set kvs) \<and>
   (plain (Arr xs) \<longleftrightarrow> (\<forall>x\<in>set xs. plain x))"
proof (intro conjI impI)
  assume "\<forall>f\<in>set filters. wellFormed f"
  then show "\<exists>out. applyFilters H rows filters = Inr out" by (rule applyFilters_total)
next
  show "(\<exists>b. filterTest H r f = Inr b) \<longleftrightarrow> wellFormed f" by (rule filterTest_returns_iff)
  show "wellFormed (asFilter \<lparr>field = k, operator = op, val = w\<rparr>) \<longleftrightarrow>
      (if op \<in> {''gt'', ''gte'', ''lt'', ''lte'', ''contains''} then plain w
       else if op = ''in'' then (\<exists>xs. w = Arr xs) \<or> (\<exists>s. w = Prim (JStr s))
       else True)"
    by (auto simp: wellFormed_def split: jsval.splits scalar.splits)
  show "plain (Prim p)" by simp
  show "plain (Obj kvs) \<longleftrightarrow> ''toString'' \<notin> fst ` set kvs" by simp
  show "plain (Arr xs) \<longleftrightarrow> (\<forall>x\<in>set xs. plain x)" by simp
next
  assume "wellFormed u"
  then show "\<not> nullish u" "plain (getProp u ''field'')" by (simp_all add: wellFormed_def)
qed

theorem applyFilters_total_on_wellFormed_witness:
  "applyFilters exampleHost salesRows
      (map asFilter [\<lparr>field = ''revenue'', operator = ''gte'', val = Prim (JStr ''abc'')\<rparr>,
                     \<lparr>field = ''region'', operator = ''in'', val = Arr [Prim (JStr ''West'')]\<rparr>])
     = Inr [] \<and>
   wellFormed (asFilter \<lparr>field = ''revenue'', operator = ''gte'', val = Prim (JStr ''abc'')\<rparr>) \<and>
   wellFormed (asFilter \<lparr>field = ''region'', operator = ''in'', val = Arr [Prim (JStr ''West'')]\<rparr>) \<and>
   \<not> wellFormed (Prim JNull) \<and>
   \<not> wellFormed (Obj [(''field'', Obj [(''toString'', Prim (JNum (Finite 1)))]),
                       (''operator'', Prim (JStr ''eq''))]) \<and>
   applyFilters exampleHost salesRows [Prim JNull]
     = Inl (TypeError (''Cannot read properties of null (reading '' @ [CHR 0x27] @ ''field'' @
                        [CHR 0x27] @ '')'')) \<and>
   applyFilters exampleHost salesRows
     [Obj [(''field'', Obj [(''toString'', Prim (JNum (Finite 1)))]),
           (''operator'', Prim (JStr ''eq''))]]
     = Inl (TypeError ''Cannot convert object to primitive value'')"
proof -
  let ?cmp = "\<lparr>field = ''revenue'', operator = ''gte'', val = Prim (JStr ''abc'')\<rparr>"
  let ?mem = "\<lparr>field = ''region'', operator = ''in'', val = Arr [Prim (JStr ''West'')]\<rparr>"
  let ?bad = "Obj [(''field'', Obj [(''toString'', Prim (JNum (Finite 1)))]),
                   (''operator'', Prim (JStr ''eq''))]"
  note tot = applyFilters_total_on_wellFormed[where H = exampleHost and rows = salesRows]
  have w1: "wellFormed (asFilter ?cmp)"
    using tot[where k = "''revenue''" and op = "''gte''" and w = "Prim (JStr ''abc'')"]
    by simp
  have w2: "wellFormed (asFilter ?mem)"
    using tot[where k = "''region''" and op = "''in''" and w = "Arr [Prim (JStr ''West'')]"]
    by simp
  have "\<exists>out. applyFilters exampleHost salesRows (map asFilter [?cmp, ?mem]) = Inr out"
    using tot[where filters = "map asFilter [?cmp, ?mem]"] w1 w2 by simp
  then obtain out where "applyFilters exampleHost salesRows (map asFilter [?cmp, ?mem]) = Inr out"
    by blast
  moreover have "applyFilters exampleHost salesRows (map asFilter [?cmp, ?mem]) = Inr []"
    by code_simp
  ultimately have run: "applyFilters exampleHost salesRows (map asFilter [?cmp, ?mem]) = Inr []"
    by simp
  have n1: "\<not> wellFormed (Prim JNull)"
    using tot[where u = "Prim JNull"] by (auto simp: nullish_def)
  have n2: "\<not> wellFormed ?bad"
    using tot[where u = ?bad] by (auto simp: getProp_def)
  have t1: "applyFilters exampleHost salesRows [Prim JNull]
     = Inl (TypeError (''Cannot read properties of null (reading '' @ [CHR 0x27] @ ''field'' @
                        [CHR 0x27] @ '')''))"
    by (simp add: salesRows_def filterTest_def nullish_def cannotRead_def)
  have t2: "applyFilters exampleHost salesRows [?bad]
     = Inl (TypeError ''Cannot convert object to primitive value'')"
    by (simp add: salesRows_def filterTest_def nullish_def getProp_def)
  from run w1 w2 n1 n2 t1 t2 show ?thesis by (intro conjI)
qed

section \<open>Properties of the relay\<close>

text \<open>
  Claim C2. A message whose source is not the window of the application frame changes
  nothing: no response is posted, no request is made to the server, nothing is logged.
\<close>

theorem handleMessage_other_source:
  "source event \<noteq> contentWindow st \<Longrightarrow> handleMessage H post event st = st"
  by (simp add: handleMessage_def)

theorem handleMessage_other_source_witness:
  "source \<lparr>source = 2, edata = pingRequest\<rparr> \<noteq> contentWindow (initialPage 1) \<and>
   handleMessage exampleHost noServer \<lparr>source = 2, edata = pingRequest\<rparr> (initialPage 1)
     = initialPage 1"
  using handleMessage_other_source
    [of "\<lparr>source = 2, edata = pingRequest\<rparr>" "initialPage 1" exampleHost noServer]
  by (simp add: initialPage_def)

lemma outbox_addLogText [simp]: "outbox (addLogText t d st) = outbox st"
  by (simp add: addLogText_def)

lemma fetched_addLogText [simp]: "fetched (addLogText t d st) = fetched st"
  by (simp add: addLogText_def)

lemma outbox_setStatus [simp]: "outbox (setStatus c m st) = outbox st"
  by (simp add: setStatus_def)

lemma fetched_setStatus [simp]: "fetched (setStatus c m st) = fetched st"
  by (simp add: setStatus_def)

lemma outbox_postMessage [simp]: "outbox (postMessage m st) = outbox st @ [m]"
  by (simp add: postMessage_def)

lemma fetched_postMessage [simp]: "fetched (postMessage m st) = fetched st"
  by (simp add: postMessage_def)

lemma outbox_fail [simp]:
  "outbox (fail message e st) =
     outbox st @ [ErrorResponse (getPropC message ''id'') (- 32000) (errorString e)]"
  by (simp add: fail_def)

lemma fetched_fail [simp]: "fetched (fail message e st) = fetched st"
  by (simp add: fail_def)

text \<open>The request is logged exactly when its method can be serialised.\<close>

lemma requestLog_returns:
  "requestLog message st =
     (if serialisable (getPropC message ''method'')
      then Inr (st\<lparr>logContent := take 30
             ((request, CObj [(''method'', getPropC message ''method''),
                              (''params'', if truthyC (getPropC message ''params'')
                                           then CPrim (JStr ''...'') else CPrim JUndefined)])
              # logContent st)\<rparr>)
      else Inl cannotSerialise)"
  by (simp add: requestLog_def addLog_def)

lemma requestLog_frame:
  "requestLog message st = Inr st1 \<Longrightarrow> outbox st1 = outbox st \<and> fetched st1 = fetched st"
  by (auto simp: requestLog_returns split: if_splits)

lemma callTool_frame:
  "callTool H post nm args st = (res, st') \<Longrightarrow>
     outbox st' = outbox st \<and>
     (case ToStringC H nm of
        Inl e \<Rightarrow> fetched st' = fetched st \<and> res = Inl e
      | Inr n \<Rightarrow>
          (if serialisable args
           then fetched st' = fetched st @ [(''http://localhost:3001/api/tools/'' @ n, args)]
           else fetched st' = fetched st \<and> res = Inl cannotSerialise))"
  by (auto simp: callTool_def split: sum.splits if_splits)

text \<open>
  What the \<open>switch\<close> leaves behind: it posts nothing, it makes one request to the
  server when the method is \<open>tools/call\<close>, the parameters can be read, the tool's name
  has a string and the arguments a JSON text, and none otherwise; and when it ends
  without a throw, the text of the response's log entry can be built.
\<close>

lemma dispatch_frame:
  assumes "dispatch H post message st = (res, st')"
  shows "outbox st' = outbox st \<and>
     (if getPropC message ''method'' = CPrim (JStr ''tools/call'') \<and>
         \<not> nullishC (getPropC message ''params'')
      then (case ToStringC H (getPropC (getPropC message ''params'') ''name'') of
              Inl e \<Rightarrow> fetched st' = fetched st
            | Inr n \<Rightarrow>
                (if serialisable (toolArguments message)
                 then fetched st' =
                        fetched st @ [(''http://localhost:3001/api/tools/'' @ n,
                                       toolArguments message)]
                 else fetched st' = fetched st))
      else fetched st' = fetched st) \<and>
     (\<forall>v. res = Inr v \<longrightarrow> (\<exists>n. responseNote H message = Inr n))"
proof -
  let ?meth = "getPropC message ''method''"
  let ?pars = "getPropC message ''params''"
  consider (init) "?meth = CPrim (JStr ''ui/initialize'')"
    | (thrown) "?meth = CPrim (JStr ''tools/call'')" "nullishC ?pars"
    | (call) "?meth = CPrim (JStr ''tools/call'')" "\<not> nullishC ?pars"
    | (ping) "?meth = CPrim (JStr ''ping'')"
    | (other) "?meth \<noteq> CPrim (JStr ''ui/initialize'')" "?meth \<noteq> CPrim (JStr ''tools/call'')"
        "?meth \<noteq> CPrim (JStr ''ping'')"
    by blast
  then show ?thesis
  proof cases
    case init
    with assms show ?thesis by (auto simp: dispatch_def Let_def responseNote_def)
  next
    case thrown
    with assms show ?thesis by (auto simp: dispatch_def Let_def responseNote_def)
  next
    case call
    with assms have c: "callTool H post (getPropC ?pars ''name'') (toolArguments message) st
        = (res, st')"
      by (simp add: dispatch_def Let_def toolArguments_def)
    from callTool_frame[OF c] call show ?thesis
      by (auto simp: responseNote_def Let_def split: sum.splits if_splits)
  next
    case ping
    with assms show ?thesis by (auto simp: dispatch_def Let_def responseNote_def)
  next
    case other
    with assms show ?thesis
      by (auto simp: dispatch_def Let_def responseNote_def split: sum.splits)
  qed
qed

text \<open>
  Claim C1, as stated, fails: a message from the frame that carries an id but not the
  protocol tag \<open>2.0\<close> is not taken for a request and gets no response.
\<close>

theorem handleMessage_untagged_no_response:
  "source \<lparr>source = 1, edata = pingUntagged\<rparr> = contentWindow (initialPage 1) \<and>
   getPropC pingUntagged ''id'' = CPrim (JNum (Finite 7)) \<and>
   outbox (handleMessage exampleHost noServer \<lparr>source = 1, edata = pingUntagged\<rparr> (initialPage 1))
     = []"
  by (simp add: handleMessage_def initialPage_def pingUntagged_def getPropC_def truthyC_def
      addLogText_def)

text \<open>
  A tagged request whose method holds a \<open>BigInt\<close> gets no response either: the log
  entry of the request cannot be serialised, and that is tried before the \<open>try\<close> block.
\<close>

lemma handleMessage_unserialisable_method:
  assumes "source event = contentWindow st"
    and "getPropC (edata event) ''jsonrpc'' = CPrim (JStr ''2.0'')"
    and "getPropC (edata event) ''id'' \<noteq> CPrim JUndefined"
    and "\<not> serialisable (getPropC (edata event) ''method'')"
  shows "handleMessage H post event st = st"
  using assms by (auto simp: handleMessage_def Let_def requestLog_returns)

lemma handleMessage_bigint_method:
  "handleMessage exampleHost noServer
     \<lparr>source = 1, edata = requestOf (CPrim (JNum (Finite 7))) (BigInt 5)\<rparr> (initialPage 1)
   = initialPage 1"
  by (rule handleMessage_unserialisable_method)
     (simp_all add: initialPage_def requestOf_def getPropC_def)

text \<open>
  Claim C1, amended. For every message from the window of the application frame that
  carries the protocol tag \<open>2.0\<close> and an id (anything but \<open>undefined\<close>), and whose
  method can be serialised as JSON (it holds no \<open>BigInt\<close>), the relay logs the
  request, runs the \<open>switch\<close> on the method once and posts exactly one response, with
  the same id: the result when the \<open>switch\<close> ends normally, and when it throws the
  error response with code \<open>-32000\<close> and the string of what was thrown. The server is
  asked once when the method is \<open>tools/call\<close>, the parameters can be read, the tool's
  name has a string and the arguments can be serialised, and not at all otherwise.
\<close>

theorem handleMessage_one_response:
  assumes peer: "source event = contentWindow st"
    and tag: "getPropC (edata event) ''jsonrpc'' = CPrim (JStr ''2.0'')"
    and id: "getPropC (edata event) ''id'' \<noteq> CPrim JUndefined"
    and ser: "serialisable (getPropC (edata event) ''method'')"
  shows "\<exists>st1 m. requestLog (edata event) st = Inr st1 \<and>
           outbox (handleMessage H post event st) = outbox st @ [m] \<and>
           responseId m = getPropC (edata event) ''id'' \<and>
           m = (case fst (dispatch H post (edata event) st1) of
                  Inr result \<Rightarrow> ResultResponse (getPropC (edata event) ''id'') result
                | Inl e \<Rightarrow> ErrorResponse (getPropC (edata event) ''id'') (- 32000) (errorString e)) \<and>
           (if getPropC (edata event) ''method'' = CPrim (JStr ''tools/call'') \<and>
               \<not> nullishC (getPropC (edata event) ''params'')
            then (case ToStringC H (getPropC (getPropC (edata event) ''params'') ''name'') of
                    Inl e \<Rightarrow> fetched (handleMessage H post event st) = fetched st
                  | Inr n \<Rightarrow>
                      (if serialisable (toolArguments (edata event))
                       then fetched (handleMessage H post event st) =
                              fetched st @ [(''http://localhost:3001/api/tools/'' @ n,
                                             toolArguments (edata event))]
                       else fetched (handleMessage H post event st) = fetched st))
            else fetched (handleMessage H post event st) = fetched st)"
proof -
  let ?m = "edata event"
  obtain kvs where obj: "?m = CObj kvs"
    using tag by (cases ?m) (auto simp: getPropC_def)
  obtain st1 where st1: "requestLog ?m st = Inr st1"
    using ser by (simp add: requestLog_returns)
  note f1 = requestLog_frame[OF st1]
  obtain res st2 where d: "dispatch H post ?m st1 = (res, st2)"
    by (cases "dispatch H post ?m st1") auto
  note fr = dispatch_frame[OF d]
  have guard: "\<not> (\<not> truthyC ?m \<or> (case ?m of CArr xs \<Rightarrow> False | CObj kvs \<Rightarrow> False | _ \<Rightarrow> True))"
    using obj by (simp add: truthyC_def)
  show ?thesis
  proof (cases res)
    case (Inl e)
    have "handleMessage H post event st = fail ?m e st2"
      using peer tag id guard st1 d Inl by (simp add: handleMessage_def Let_def)
    with fr f1 d Inl st1 show ?thesis
      by (auto simp: responseId_def split: sum.splits if_splits)
  next
    case (Inr result)
    then obtain n where n: "responseNote H ?m = Inr n" using fr by blast
    have "handleMessage H post event st =
            postMessage (ResultResponse (getPropC ?m ''id'') result) (addLogText response n st2)"
      using peer tag id guard st1 d Inr n by (simp add: handleMessage_def Let_def)
    with fr f1 d Inr st1 show ?thesis
      by (auto simp: responseId_def split: sum.splits if_splits)
  qed
qed

theorem handleMessage_one_response_witness:
  "source \<lparr>source = 1, edata = pingRequest\<rparr> = contentWindow (initialPage 1) \<and>
   getPropC pingRequest ''jsonrpc'' = CPrim (JStr ''2.0'') \<and>
   getPropC pingRequest ''id'' = CPrim (JNum (Finite 7)) \<and>
   serialisable (getPropC pingRequest ''method'') \<and>
   outbox (handleMessage exampleHost noServer \<lparr>source = 1, edata = pingRequest\<rparr> (initialPage 1))
     = [ResultResponse (CPrim (JNum (Finite 7))) (CObj [])] \<and>
   fetched (handleMessage exampleHost noServer \<lparr>source = 1, edata = pingRequest\<rparr> (initialPage 1))
     = [] \<and>
   outbox (handleMessage exampleHost noServer \<lparr>source = 1, edata = toolRequest\<rparr> (initialPage 1))
     = [ErrorResponse (CPrim (JNum (Finite 3))) (- 32000) ''TypeError: Failed to fetch''] \<and>
   fetched (handleMessage exampleHost noServer \<lparr>source = 1, edata = toolRequest\<rparr> (initialPage 1))
     = [(''http://localhost:3001/api/tools/list-datasets'', CObj [])]"
proof -
  let ?ping = "\<lparr>source = 1, edata = pingRequest\<rparr>"
  let ?tool = "\<lparr>source = 1, edata = toolRequest\<rparr>"
  have peer: "source ?ping = contentWindow (initialPage 1)"
    "source ?tool = contentWindow (initialPage 1)"
    by (simp_all add: initialPage_def)
  have tag: "getPropC (edata ?ping) ''jsonrpc'' = CPrim (JStr ''2.0'')"
    "getPropC (edata ?tool) ''jsonrpc'' = CPrim (JStr ''2.0'')"
    by (simp_all add: pingRequest_def toolRequest_def requestOf_def getPropC_def)
  have id: "getPropC (edata ?ping) ''id'' \<noteq> CPrim JUndefined"
    "getPropC (edata ?tool) ''id'' \<noteq> CPrim JUndefined"
    by (simp_all add: pingRequest_def toolRequest_def requestOf_def getPropC_def)
  have ser: "serialisable (getPropC (edata ?ping) ''method'')"
    "serialisable (getPropC (edata ?tool) ''method'')"
    by (simp_all add: pingRequest_def toolRequest_def requestOf_def getPropC_def)
  have idv: "getPropC pingRequest ''id'' = CPrim (JNum (Finite 7))"
    "getPropC toolRequest ''id'' = CPrim (JNum (Finite 3))"
    by (simp_all add: pingRequest_def toolRequest_def requestOf_def getPropC_def)
  have ping: "fst (dispatch exampleHost noServer pingRequest st1) = Inr (CObj [])" for st1
    by (simp add: dispatch_def pingRequest_def requestOf_def getPropC_def)
  have tool: "fst (dispatch exampleHost noServer toolRequest st1)
      = Inl (TypeError ''Failed to fetch'')" for st1
    by (simp add: dispatch_def toolRequest_def getPropC_def nullishC_def callTool_def
        toolArguments_def truthyC_def noServer_def)
  have meth: "getPropC pingRequest ''method'' \<noteq> CPrim (JStr ''tools/call'')"
    "getPropC toolRequest ''method'' = CPrim (JStr ''tools/call'')"
    "\<not> nullishC (getPropC toolRequest ''params'')"
    "ToStringC exampleHost (getPropC (getPropC toolRequest ''params'') ''name'')
       = Inr ''list-datasets''"
    "toolArguments toolRequest = CObj []"
    by (simp_all add: pingRequest_def toolRequest_def requestOf_def getPropC_def nullishC_def
        toolArguments_def truthyC_def)
  have one: "outbox (handleMessage exampleHost noServer ?ping (initialPage 1))
      = [ResultResponse (CPrim (JNum (Finite 7))) (CObj [])] \<and>
    fetched (handleMessage exampleHost noServer ?ping (initialPage 1)) = []"
    using handleMessage_one_response[OF peer(1) tag(1) id(1) ser(1), of exampleHost noServer]
      ping meth idv
    by (auto simp: initialPage_def)
  have two: "outbox (handleMessage exampleHost noServer ?tool (initialPage 1))
      = [ErrorResponse (CPrim (JNum (Finite 3))) (- 32000) ''TypeError: Failed to fetch''] \<and>
    fetched (handleMessage exampleHost noServer ?tool (initialPage 1))
      = [(''http://localhost:3001/api/tools/list-datasets'', CObj [])]"
    using handleMessage_one_response[OF peer(2) tag(2) id(2) ser(2), of exampleHost noServer]
      tool meth idv
    by (auto simp: initialPage_def)
  from peer tag idv ser one two show ?thesis by simp
qed

text \<open>
  Claim C8, as stated, fails: a request whose method is an object with a property
  named \<open>toString\<close> is none the relay recognises, and it is answered with an error
  response: the text of the log entry for the unhandled method cannot be built.
\<close>

theorem handleMessage_unknown_method_error:
  "outbox (handleMessage exampleHost noServer
      \<lparr>source = 1,
       edata = requestOf (CPrim (JStr ''42''))
                 (CObj [(''toString'', CPrim (JNum (Finite 1)))])\<rparr> (initialPage 1))
   = [ErrorResponse (CPrim (JStr ''42'')) (- 32000)
        ''TypeError: Cannot convert object to primitive value'']"
  by (simp add: handleMessage_def initialPage_def requestOf_def getPropC_def truthyC_def
      requestLog_def addLog_def dispatch_def fail_def addLogText_def postMessage_def)

text \<open>
  Claim C8, amended. A request from the window of the application frame (protocol tag
  \<open>2.0\<close> and an id) whose method is none of \<open>ui/initialize\<close>, \<open>tools/call\<close> and
  \<open>ping\<close>, has a string conversion and can be serialised as JSON, as every string
  can, gets exactly one response: the empty result \<open>{}\<close> with the request's id, and
  not an error. The server is not asked.
\<close>

theorem handleMessage_unknown_method:
  assumes peer: "source event = contentWindow st"
    and tag: "getPropC (edata event) ''jsonrpc'' = CPrim (JStr ''2.0'')"
    and id: "getPropC (edata event) ''id'' \<noteq> CPrim JUndefined"
    and unknown: "getPropC (edata event) ''method'' \<notin>
       {CPrim (JStr ''ui/initialize''), CPrim (JStr ''tools/call''), CPrim (JStr ''ping'')}"
    and name: "ToStringC H (getPropC (edata event) ''method'') = Inr n"
    and ser: "serialisable (getPropC (edata event) ''method'')"
  shows "outbox (handleMessage H post event st) =
           outbox st @ [ResultResponse (getPropC (edata event) ''id'') (CObj [])] \<and>
         fetched (handleMessage H post event st) = fetched st \<and>
         (\<forall>s. serialisable (CPrim (JStr s)) \<and> ToStringC H (CPrim (JStr s)) = Inr s)"
proof -
  let ?m = "edata event"
  obtain kvs where obj: "?m = CObj kvs"
    using tag by (cases ?m) (auto simp: getPropC_def)
  have guard: "\<not> (\<not> truthyC ?m \<or> (case ?m of CArr xs \<Rightarrow> False | CObj kvs \<Rightarrow> False | _ \<Rightarrow> True))"
    using obj by (simp add: truthyC_def)
  obtain st1 where st1: "requestLog ?m st = Inr st1"
    using ser by (simp add: requestLog_returns)
  note f1 = requestLog_frame[OF st1]
  have d: "dispatch H post ?m st1 = (Inr (CObj []), addLogText info (''Unhandled: '' @ n) st1)"
    using unknown name by (simp add: dispatch_def Let_def)
  have rn: "responseNote H ?m = Inr ''OK''"
    using unknown by (simp add: responseNote_def)
  have "handleMessage H post event st =
          postMessage (ResultResponse (getPropC ?m ''id'') (CObj []))
            (addLogText response ''OK'' (addLogText info (''Unhandled: '' @ n) st1))"
    using peer tag id guard st1 d rn by (simp add: handleMessage_def Let_def)
  then show ?thesis using f1 by simp
qed

theorem handleMessage_unknown_method_witness:
  "source \<lparr>source = 1, edata = unknownRequest\<rparr> = contentWindow (initialPage 1) \<and>
   getPropC unknownRequest ''method'' = CPrim (JStr ''resources/list'') \<and>
   outbox (handleMessage exampleHost noServer \<lparr>source = 1, edata = unknownRequest\<rparr> (initialPage 1))
     = [ResultResponse (CPrim (JStr ''42'')) (CObj [])] \<and>
   fetched (handleMessage exampleHost noServer \<lparr>source = 1, edata = unknownRequest\<rparr> (initialPage 1))
     = []"
proof -
  let ?e = "\<lparr>source = 1, edata = unknownRequest\<rparr>"
  have peer: "source ?e = contentWindow (initialPage 1)"
    by (simp add: initialPage_def)
  have tag: "getPropC (edata ?e) ''jsonrpc'' = CPrim (JStr ''2.0'')"
    by (simp add: unknownRequest_def requestOf_def getPropC_def)
  have id: "getPropC (edata ?e) ''id'' \<noteq> CPrim JUndefined"
    by (simp add: unknownRequest_def requestOf_def getPropC_def)
  have meth: "getPropC unknownRequest ''method'' = CPrim (JStr ''resources/list'')"
    by (simp add: unknownRequest_def requestOf_def getPropC_def)
  have unknown: "getPropC (edata ?e) ''method'' \<notin>
       {CPrim (JStr ''ui/initialize''), CPrim (JStr ''tools/call''), CPrim (JStr ''ping'')}"
    using meth by simp
  have name: "ToStringC exampleHost (getPropC (edata ?e) ''method'') = Inr ''resources/list''"
    using meth by simp
  have ser: "serialisable (getPropC (edata ?e) ''method'')"
    using meth by simp
  have idv: "getPropC unknownRequest ''id'' = CPrim (JStr ''42'')"
    by (simp add: unknownRequest_def requestOf_def getPropC_def)
  show ?thesis
    using handleMessage_unknown_method[OF peer tag id unknown name ser, of noServer]
      meth idv peer
    by (simp add: initialPage_def)
qed

section \<open>Properties of the query tool\<close>

text \<open>
  What \<open>query-data\<close> answers for a dataset of the store, without the store: the
  records are filtered, counted, sorted when asked, and sliced.
\<close>

lemma queryData_found:
  assumes "map_of (datasets s) (q_dataset q) = Some ds"
  shows "fst (queryData H q s) =
     (case applyFilters H (arrays s (ds_data ds)) (filtersOf q) of
        Inl e \<Rightarrow> Inl e
      | Inr fd \<Rightarrow>
          Inr (ok (Queried
            \<lparr>page = slice (case q_sort q of None \<Rightarrow> fd | Some spec \<Rightarrow> sortData H fd spec)
                      (offsetOf q) (addN (offsetOf q) (limitOf q)),
             totalCount = length fd, r_offset = offsetOf q, r_limit = limitOf q,
             hasMore = lessN (addN (offsetOf q) (limitOf q)) (Finite (of_nat (length fd)))\<rparr>)))"
proof (cases "filtersOf q = []")
  case True
  then show ?thesis using assms
    by (auto simp: queryData_def Let_def newArray_def sortDataAt_def sortInPlace_def
        sortData_def applyFilters_Nil split: option.splits)
next
  case False
  then show ?thesis using assms
    by (auto simp: queryData_def Let_def newArray_def sortDataAt_def sortInPlace_def
        sortData_def applyFiltersAt_def split: option.splits sum.splits)
qed

lemma relativeIndex_nat [simp]: "relativeIndex len (Finite (of_nat i)) = min i len"
proof -
  have "\<lfloor>(of_nat i :: rat)\<rfloor> = int i" by simp
  then show ?thesis by (simp add: relativeIndex_def ToIntegerOrInfinity_def min_def)
qed

lemma slice_nat:
  "slice xs (Finite (of_nat i)) (Finite (of_nat (i + n))) = take n (drop i xs)"
proof -
  have sl: "slice xs (Finite (of_nat i)) (Finite (of_nat (i + n))) =
      take (min (i + n) (length xs) - min i (length xs)) (drop (min i (length xs)) xs)"
    unfolding slice_def Let_def relativeIndex_nat by (rule refl)
  show ?thesis
  proof (cases "i \<le> length xs")
    case True
    show ?thesis
    proof (cases "i + n \<le> length xs")
      case True
      then show ?thesis unfolding sl by (simp add: min_def)
    next
      case False
      then have "length (drop i xs) \<le> n" by simp
      moreover have "length (drop i xs) \<le> min (i + n) (length xs) - i"
        using False by simp
      ultimately show ?thesis unfolding sl using True by (simp add: min_def)
    qed
  next
    case False
    then show ?thesis unfolding sl by (simp add: min_def)
  qed
qed

text \<open>The sum of two whole numbers is exact up to \<open>2 ^ 53\<close>.\<close>

lemma addN_nat:
  assumes "i + n \<le> 2 ^ 53"
  shows "addN (Finite (of_nat i)) (Finite (of_nat n)) = Finite (of_nat (i + n))"
proof -
  have "fl (of_nat (i + n)) = Finite (of_nat (i + n))" using assms by (rule fl_of_nat)
  then show ?thesis by simp
qed






text \<open>
  The sum of offset and limit is a sum of doubles: with an offset just below 1 and
  limit 1 it is 2, and the page has two records.
\<close>

lemma queryData_rounded_sum:
  "fst (queryData exampleHost
          \<lparr>q_dataset = ''sales'', q_filters = None, q_sort = None,
           q_limit = Some (Finite 1),
           q_offset = Some (Finite (9007199254740991 / 9007199254740992))\<rparr> exampleServer)
   = Inr (ok (Queried
       \<lparr>page = [[(''region'', JStr ''West''), (''revenue'', JNum (Finite 10))],
                [(''region'', JStr ''East''), (''revenue'', JNum (Finite 25))]],
        totalCount = 3, r_offset = Finite (9007199254740991 / 9007199254740992),
        r_limit = Finite 1, hasMore = True\<rparr>))"
  by code_simp




lemma slice_0_100: "slice xs (Finite 0) (addN (Finite 0) (Finite 100)) = take 100 xs"
proof -
  have "addN (Finite (of_nat 0)) (Finite (of_nat 100)) = Finite (of_nat (0 + 100))"
    by (rule addN_nat) simp
  then have "addN (Finite 0) (Finite 100) = Finite (of_nat (0 + 100))" by simp
  moreover have "slice xs (Finite (of_nat 0)) (Finite (of_nat (0 + 100))) = take 100 (drop 0 xs)"
    by (rule slice_nat)
  ultimately show ?thesis by simp
qed

text \<open>The answer depends on the request only through its properties after defaulting.\<close>

lemma queryData_depends:
  assumes "q_dataset q = q_dataset q'" "filtersOf q = filtersOf q'" "q_sort q = q_sort q'"
    "limitOf q = limitOf q'" "offsetOf q = offsetOf q'"
  shows "queryData H q s = queryData H q' s"
  unfolding queryData_def assms by (rule refl)

text \<open>
  Claim C10. A request without \<open>limit\<close> is answered as the same request with limit
  100, one without \<open>offset\<close> as with offset 0, one without \<open>filters\<close> as with the
  empty filter list. Without filters, \<open>totalCount\<close> is the number of records of the
  dataset and the page is a slice of all its records (sorted when asked); without
  limit and offset as well, the page is their first hundred.
\<close>

theorem queryData_defaults:
  "queryData H (q\<lparr>q_limit := None\<rparr>) s = queryData H (q\<lparr>q_limit := Some (Finite 100)\<rparr>) s \<and>
   queryData H (q\<lparr>q_offset := None\<rparr>) s = queryData H (q\<lparr>q_offset := Some (Finite 0)\<rparr>) s \<and>
   queryData H (q\<lparr>q_filters := None\<rparr>) s = queryData H (q\<lparr>q_filters := Some []\<rparr>) s \<and>
   (map_of (datasets s) (q_dataset q) = Some ds \<and> q_filters q = None \<longrightarrow>
      (\<exists>r. fst (queryData H q s) = Inr (ok (Queried r)) \<and>
           totalCount r = length (arrays s (ds_data ds)) \<and>
           page r = slice (case q_sort q of None \<Rightarrow> arrays s (ds_data ds)
                           | Some spec \<Rightarrow> sortData H (arrays s (ds_data ds)) spec)
                      (offsetOf q) (addN (offsetOf q) (limitOf q)) \<and>
           (q_limit q = None \<and> q_offset q = None \<longrightarrow>
              r_limit r = Finite 100 \<and> r_offset r = Finite 0 \<and>
              page r = take 100 (case q_sort q of None \<Rightarrow> arrays s (ds_data ds)
                                 | Some spec \<Rightarrow> sortData H (arrays s (ds_data ds)) spec))))"
proof (intro conjI impI)
  show "queryData H (q\<lparr>q_limit := None\<rparr>) s = queryData H (q\<lparr>q_limit := Some (Finite 100)\<rparr>) s"
    by (rule queryData_depends) (simp_all add: limitOf_def filtersOf_def offsetOf_def)
  show "queryData H (q\<lparr>q_offset := None\<rparr>) s = queryData H (q\<lparr>q_offset := Some (Finite 0)\<rparr>) s"
    by (rule queryData_depends) (simp_all add: limitOf_def filtersOf_def offsetOf_def)
  show "queryData H (q\<lparr>q_filters := None\<rparr>) s = queryData H (q\<lparr>q_filters := Some []\<rparr>) s"
    by (rule queryData_depends) (simp_all add: limitOf_def filtersOf_def offsetOf_def)
next
  assume a: "map_of (datasets s) (q_dataset q) = Some ds \<and> q_filters q = None"
  let ?all = "arrays s (ds_data ds)"
  let ?srt = "case q_sort q of None \<Rightarrow> ?all | Some spec \<Rightarrow> sortData H ?all spec"
  let ?r = "\<lparr>page = slice ?srt (offsetOf q) (addN (offsetOf q) (limitOf q)),
             totalCount = length ?all, r_offset = offsetOf q, r_limit = limitOf q,
             hasMore = lessN (addN (offsetOf q) (limitOf q)) (Finite (of_nat (length ?all)))\<rparr>"
  have f: "filtersOf q = []" using a by (simp add: filtersOf_def)
  have res: "fst (queryData H q s) = Inr (ok (Queried ?r))"
    using a by (simp add: queryData_found f applyFilters_Nil)
  have dflt: "q_limit q = None \<and> q_offset q = None \<longrightarrow>
      limitOf q = Finite 100 \<and> offsetOf q = Finite 0 \<and>
      slice ?srt (offsetOf q) (addN (offsetOf q) (limitOf q)) = take 100 ?srt"
    using slice_0_100[of ?srt] by (simp add: limitOf_def offsetOf_def)
  show "\<exists>r. fst (queryData H q s) = Inr (ok (Queried r)) \<and>
           totalCount r = length ?all \<and>
           page r = slice ?srt (offsetOf q) (addN (offsetOf q) (limitOf q)) \<and>
           (q_limit q = None \<and> q_offset q = None \<longrightarrow>
              r_limit r = Finite 100 \<and> r_offset r = Finite 0 \<and> page r = take 100 ?srt)"
  proof (intro exI[of _ ?r] conjI impI)
    show "fst (queryData H q s) = Inr (ok (Queried ?r))" by (rule res)
    show "totalCount ?r = length ?all" by simp
    show "page ?r = slice ?srt (offsetOf q) (addN (offsetOf q) (limitOf q))" by simp
  next
    assume "q_limit q = None \<and> q_offset q = None"
    with dflt have d: "limitOf q = Finite 100" "offsetOf q = Finite 0"
      "slice ?srt (offsetOf q) (addN (offsetOf q) (limitOf q)) = take 100 ?srt"
      by blast+
    show "r_limit ?r = Finite 100" using d(1) by simp
    show "r_offset ?r = Finite 0" using d(2) by simp
    show "page ?r = take 100 ?srt" using d(3) by simp
  qed
qed

theorem queryData_defaults_witness:
  "map_of (datasets exampleServer) ''sales'' \<noteq> None \<and>
   fst (queryData exampleHost
          \<lparr>q_dataset = ''sales'', q_filters = None, q_sort = None,
           q_limit = None, q_offset = None\<rparr> exampleServer)
   = Inr (ok (Queried
       \<lparr>page = salesRows, totalCount = 3, r_offset = Finite 0, r_limit = Finite 100,
        hasMore = False\<rparr>))"
proof -
  let ?q = "\<lparr>q_dataset = ''sales'', q_filters = None, q_sort = None,
           q_limit = None, q_offset = None\<rparr>"
  let ?ds = "\<lparr>ds_name = ''sales'', ds_description = ''Sales by region'',
                      ds_schema = [(''region'', ''string''), (''revenue'', ''number'')],
                      ds_data = 0\<rparr>"
  have found: "map_of (datasets exampleServer) (q_dataset ?q) = Some ?ds"
    by (simp add: exampleServer_def)
  have omitted: "q_filters ?q = None" "q_limit ?q = None \<and> q_offset ?q = None"
    by simp_all
  have rows: "arrays exampleServer (ds_data ?ds) = salesRows"
    by (simp add: exampleServer_def)
  obtain r where r: "fst (queryData exampleHost ?q exampleServer) = Inr (ok (Queried r))"
      "totalCount r = length (arrays exampleServer (ds_data ?ds))"
      "r_limit r = Finite 100" "r_offset r = Finite 0"
      "page r = take 100 (arrays exampleServer (ds_data ?ds))"
    using queryData_defaults[of exampleHost ?q exampleServer ?ds] found omitted by auto
  have sum: "fl 100 = Finite 100" by code_simp
  have more: "hasMore r = False"
    using r(1) by (subst (asm) queryData_found[OF found])
      (auto simp: filtersOf_def applyFilters_Nil ok_def offsetOf_def limitOf_def
        exampleServer_def salesRows_def sum)
  have "r = \<lparr>page = salesRows, totalCount = 3, r_offset = Finite 0, r_limit = Finite 100,
             hasMore = False\<rparr>"
    using r(2-5) more by (cases r) (simp add: exampleServer_def salesRows_def)
  with r(1) found show ?thesis by simp
qed

section \<open>The tools leave the datasets alone\<close>

lemma extends_refl: "extends s s"
  by (simp add: extends_def)

lemma extends_trans: "extends s t \<Longrightarrow> extends t u \<Longrightarrow> extends s u"
  by (auto simp: extends_def)

lemma newArray_extends: "newArray xs s = (a, s') \<Longrightarrow> extends s s' \<and> a = fresh s \<and> a < fresh s'"
  by (auto simp: newArray_def extends_def)

lemma applyFiltersAt_extends: "applyFiltersAt H a fs s = (res, s') \<Longrightarrow> extends s s'"
  by (auto simp: applyFiltersAt_def extends_refl split: sum.splits prod.splits
      dest: newArray_extends)

text \<open>
  The one in-place operation, the sort, works on the copy made just before: the
  copy's address was not in use, so no array that was in use changes.
\<close>

lemma sortDataAt_extends: "sortDataAt H a spec s = (c, s') \<Longrightarrow> extends s s'"
  by (auto simp: sortDataAt_def sortInPlace_def newArray_def extends_def)

lemma listDatasets_extends: "extends s (snd (listDatasets s))"
  by (simp add: listDatasets_def extends_refl)

lemma getSchema_extends: "extends s (snd (getSchema H n s))"
  by (simp add: getSchema_def extends_refl split: option.splits)

lemma aggregate_extends: "extends s (snd (aggregate H q s))"
  by (simp add: aggregate_def extends_refl split: option.splits)

lemma filtered_extends:
  assumes "(if length fs > 0 then applyFiltersAt H a fs s else (Inr a, s)) = (res, s')"
  shows "extends s s'"
proof (cases "length fs > 0")
  case True
  with assms show ?thesis by (simp add: applyFiltersAt_extends)
next
  case False
  with assms show ?thesis by (auto simp: extends_refl)
qed

lemma queryData_extends: "extends s (snd (queryData H q s))"
proof (cases "map_of (datasets s) (q_dataset q)")
  case None
  then show ?thesis by (simp add: queryData_def extends_refl)
next
  case (Some dataset)
  obtain d0 s0 where c: "newArray (arrays s (ds_data dataset)) s = (d0, s0)"
    by (cases "newArray (arrays s (ds_data dataset)) s") auto
  obtain res s1 where f:
    "(if length (filtersOf q) > 0 then applyFiltersAt H d0 (filtersOf q) s0 else (Inr d0, s0))
       = (res, s1)"
    by (cases "if length (filtersOf q) > 0 then applyFiltersAt H d0 (filtersOf q) s0
               else (Inr d0, s0)") auto
  have e1: "extends s s1"
    using newArray_extends[OF c] filtered_extends[OF f] by (blast intro: extends_trans)
  show ?thesis
  proof (cases res)
    case (Inl e)
    with Some c f e1 show ?thesis by (simp add: queryData_def Let_def)
  next
    case (Inr d1)
    obtain d2 s2 where srt:
      "(case q_sort q of None \<Rightarrow> (d1, s1) | Some spec \<Rightarrow> sortDataAt H d1 spec s1) = (d2, s2)"
      by (cases "case q_sort q of None \<Rightarrow> (d1, s1) | Some spec \<Rightarrow> sortDataAt H d1 spec s1") auto
    have e2: "extends s1 s2"
      using srt by (auto simp: extends_refl sortDataAt_extends split: option.splits)
    obtain d3 s3 where pg:
      "newArray (slice (arrays s2 d2) (offsetOf q) (addN (offsetOf q) (limitOf q))) s2 = (d3, s3)"
      by (cases "newArray (slice (arrays s2 d2) (offsetOf q) (addN (offsetOf q) (limitOf q))) s2") auto
    have e3: "extends s2 s3" using newArray_extends[OF pg] by simp
    have "snd (queryData H q s) = s3"
      using Some c f Inr srt pg by (simp add: queryData_def Let_def)
    with e1 e2 e3 show ?thesis by (blast intro: extends_trans)
  qed
qed

lemma exportData_extends: "extends s (snd (exportData H q s))"
proof (cases "map_of (datasets s) (e_dataset q)")
  case None
  then show ?thesis by (simp add: exportData_def extends_refl)
next
  case (Some dataset)
  let ?fs = "case e_filters q of None \<Rightarrow> [] | Some fs \<Rightarrow> fs"
  obtain d0 s0 where c: "newArray (arrays s (ds_data dataset)) s = (d0, s0)"
    by (cases "newArray (arrays s (ds_data dataset)) s") auto
  obtain res s1 where f:
    "(if length ?fs > 0 then applyFiltersAt H d0 ?fs s0 else (Inr d0, s0)) = (res, s1)"
    by (cases "if length ?fs > 0 then applyFiltersAt H d0 ?fs s0 else (Inr d0, s0)") auto
  have e1: "extends s s1"
    using newArray_extends[OF c] filtered_extends[OF f] by (blast intro: extends_trans)
  have "snd (exportData H q s) = s1"
    using Some c f by (cases res) (simp_all add: exportData_def Let_def)
  with e1 show ?thesis by simp
qed

lemma callServerTool_extends: "extends s (snd (callServerTool H call s))"
  by (cases call)
    (simp_all add: callServerTool_def listDatasets_extends getSchema_extends queryData_extends
      aggregate_extends exportData_extends)

text \<open>
  Claim C9. After any of the five tools, called with any arguments on a store whose
  datasets' arrays are in use, the store has the same datasets under the same names,
  each with its name, description and schema, and each dataset's record array holds
  the records it held before, in the same order. This also holds when the tool throws.
\<close>

theorem callServerTool_keeps_datasets:
  assumes "wellAllocated s"
  shows "datasets (snd (callServerTool H call s)) = datasets s \<and>
         (\<forall>(n, ds)\<in>set (datasets s).
            arrays (snd (callServerTool H call s)) (ds_data ds) = arrays s (ds_data ds)) \<and>
         wellAllocated (snd (callServerTool H call s))"
  using assms callServerTool_extends[of s H call]
  by (fastforce simp: extends_def wellAllocated_def)

theorem callServerTool_keeps_datasets_witness:
  "wellAllocated exampleServer \<and>
   datasets (snd (callServerTool exampleHost
      (QueryData \<lparr>q_dataset = ''sales'', q_filters = None,
                   q_sort = Some \<lparr>sort_field = ''revenue'', direction = ''asc''\<rparr>,
                   q_limit = None, q_offset = None\<rparr>) exampleServer)) = datasets exampleServer \<and>
   arrays (snd (callServerTool exampleHost
      (QueryData \<lparr>q_dataset = ''sales'', q_filters = None,
                   q_sort = Some \<lparr>sort_field = ''revenue'', direction = ''asc''\<rparr>,
                   q_limit = None, q_offset = None\<rparr>) exampleServer)) 0 = salesRows"
proof -
  have wa: "wellAllocated exampleServer"
    by (simp add: wellAllocated_def exampleServer_def)
  show ?thesis
    using callServerTool_keeps_datasets[OF wa, of exampleHost
      "QueryData \<lparr>q_dataset = ''sales'', q_filters = None,
                   q_sort = Some \<lparr>sort_field = ''revenue'', direction = ''asc''\<rparr>,
                   q_limit = None, q_offset = None\<rparr>"] wa
    by (simp add: exampleServer_def)
qed


end
